theory Spec2Isabelle
  imports Complex_Main "HOL-Library.Monad_Syntax"
begin

section \<open>JavaScript numbers\<close>

text \<open>
  Every number of the program is a JavaScript Number.  A finite value is modelled by the
  real it denotes, and the three special values are kept apart, so that a division by
  zero is a value of the model (\<open>0/0 = NaN\<close>, \<open>x/0 = \<plusminus>Infinity\<close>) and a comparison
  with \<open>NaN\<close> is false, as in the language.  Arithmetic on finite values is exact:
  rounding to binary64 and overflow are not part of this type (section
  \<open>Binary64 rounding\<close> adds rounding where a claim depends on it), and the two zeros
  are identified (a zero divisor counts as \<open>+0\<close>).
\<close>

datatype jsnum = Fin real | PInf | NInf | NaN

instantiation jsnum :: "{plus, minus, uminus, times, inverse, abs, ord}"
begin

fun uminus_jsnum :: "jsnum \<Rightarrow> jsnum" where
  "uminus_jsnum (Fin a) = Fin (- a)"
| "uminus_jsnum PInf = NInf"
| "uminus_jsnum NInf = PInf"
| "uminus_jsnum NaN = NaN"

fun plus_jsnum :: "jsnum \<Rightarrow> jsnum \<Rightarrow> jsnum" where
  "plus_jsnum (Fin a) (Fin b) = Fin (a + b)"
| "plus_jsnum NaN _ = NaN"
| "plus_jsnum _ NaN = NaN"
| "plus_jsnum PInf NInf = NaN"
| "plus_jsnum NInf PInf = NaN"
| "plus_jsnum PInf _ = PInf"
| "plus_jsnum _ PInf = PInf"
| "plus_jsnum NInf _ = NInf"
| "plus_jsnum _ NInf = NInf"

fun minus_jsnum :: "jsnum \<Rightarrow> jsnum \<Rightarrow> jsnum" where
  "minus_jsnum (Fin a) (Fin b) = Fin (a - b)"
| "minus_jsnum x y = x + (- y)"

fun times_jsnum :: "jsnum \<Rightarrow> jsnum \<Rightarrow> jsnum" where
  "times_jsnum (Fin a) (Fin b) = Fin (a * b)"
| "times_jsnum NaN _ = NaN"
| "times_jsnum _ NaN = NaN"
| "times_jsnum (Fin a) PInf = (if a = 0 then NaN else if 0 < a then PInf else NInf)"
| "times_jsnum (Fin a) NInf = (if a = 0 then NaN else if 0 < a then NInf else PInf)"
| "times_jsnum PInf (Fin b) = (if b = 0 then NaN else if 0 < b then PInf else NInf)"
| "times_jsnum NInf (Fin b) = (if b = 0 then NaN else if 0 < b then NInf else PInf)"
| "times_jsnum PInf PInf = PInf"
| "times_jsnum PInf NInf = NInf"
| "times_jsnum NInf PInf = NInf"
| "times_jsnum NInf NInf = PInf"

fun divide_jsnum :: "jsnum \<Rightarrow> jsnum \<Rightarrow> jsnum" where
  "divide_jsnum (Fin a) (Fin b) =
     (if b \<noteq> 0 then Fin (a / b) else if a = 0 then NaN else if 0 < a then PInf else NInf)"
| "divide_jsnum NaN _ = NaN"
| "divide_jsnum _ NaN = NaN"
| "divide_jsnum (Fin a) PInf = Fin 0"
| "divide_jsnum (Fin a) NInf = Fin 0"
| "divide_jsnum PInf (Fin b) = (if 0 \<le> b then PInf else NInf)"
| "divide_jsnum NInf (Fin b) = (if 0 \<le> b then NInf else PInf)"
| "divide_jsnum PInf PInf = NaN"
| "divide_jsnum PInf NInf = NaN"
| "divide_jsnum NInf PInf = NaN"
| "divide_jsnum NInf NInf = NaN"

definition inverse_jsnum :: "jsnum \<Rightarrow> jsnum" where
  "inverse_jsnum x = divide (Fin 1) x"

fun abs_jsnum :: "jsnum \<Rightarrow> jsnum" where
  "abs_jsnum (Fin a) = Fin \<bar>a\<bar>"
| "abs_jsnum PInf = PInf"
| "abs_jsnum NInf = PInf"
| "abs_jsnum NaN = NaN"

fun less_jsnum :: "jsnum \<Rightarrow> jsnum \<Rightarrow> bool" where
  "less_jsnum (Fin a) (Fin b) = (a < b)"
| "less_jsnum NaN _ = False"
| "less_jsnum _ NaN = False"
| "less_jsnum PInf _ = False"
| "less_jsnum _ NInf = False"
| "less_jsnum _ PInf = True"
| "less_jsnum NInf _ = True"

fun less_eq_jsnum :: "jsnum \<Rightarrow> jsnum \<Rightarrow> bool" where
  "less_eq_jsnum (Fin a) (Fin b) = (a \<le> b)"
| "less_eq_jsnum NaN _ = False"
| "less_eq_jsnum _ NaN = False"
| "less_eq_jsnum NInf _ = True"
| "less_eq_jsnum _ PInf = True"
| "less_eq_jsnum PInf _ = False"
| "less_eq_jsnum _ NInf = False"

instance ..

end

text \<open>\<open>a === b\<close> on numbers: \<open>NaN\<close> is not equal to itself.\<close>

definition strict_eq :: "jsnum \<Rightarrow> jsnum \<Rightarrow> bool" where
  "strict_eq a b = (a \<noteq> NaN \<and> a = b)"

text \<open>Truthiness of a number, as \<open>x || d\<close> tests it: \<open>0\<close> and \<open>NaN\<close> are falsy.\<close>

definition truthy :: "jsnum \<Rightarrow> bool" where
  "truthy x = (x \<noteq> Fin 0 \<and> x \<noteq> NaN)"

text \<open>\<open>Math.max\<close> and \<open>Math.min\<close>: \<open>NaN\<close> if an argument is \<open>NaN\<close>.\<close>

definition Math_max :: "jsnum \<Rightarrow> jsnum \<Rightarrow> jsnum" where
  "Math_max a b = (if a = NaN \<or> b = NaN then NaN else if a < b then b else a)"

definition Math_min :: "jsnum \<Rightarrow> jsnum \<Rightarrow> jsnum" where
  "Math_min a b = (if a = NaN \<or> b = NaN then NaN else if b < a then b else a)"

definition Math_sqrt :: "jsnum \<Rightarrow> jsnum" where
  "Math_sqrt x = (case x of Fin a \<Rightarrow> (if a < 0 then NaN else Fin (sqrt a))
                  | PInf \<Rightarrow> PInf | NInf \<Rightarrow> NaN | NaN \<Rightarrow> NaN)"

text \<open>
  \<open>parseFloat(x.toFixed(2))\<close>: \<open>toFixed\<close> prints the sign and then the integer \<open>n\<close>
  for which \<open>n / 100\<close> is closest to \<open>|x|\<close> (the larger one on a tie); a value that
  is not finite or is at least \<open>10^21\<close> is printed as it is.
\<close>

definition toFixed2 :: "jsnum \<Rightarrow> jsnum" where
  "toFixed2 x = (case x of
       Fin a \<Rightarrow> (if 10 ^ 21 \<le> \<bar>a\<bar> then Fin a
                 else Fin (sgn a * (real_of_int \<lfloor>\<bar>a\<bar> * 100 + 1 / 2\<rfloor> / 100)))
     | PInf \<Rightarrow> PInf | NInf \<Rightarrow> NInf | NaN \<Rightarrow> NaN)"

definition is_finite :: "jsnum \<Rightarrow> bool" where
  "is_finite x = (case x of Fin a \<Rightarrow> True | _ \<Rightarrow> False)"

text \<open>A value that may also be \<open>undefined\<close> or \<open>null\<close>.\<close>

datatype jsval = Undefined | Null | Num jsnum

text \<open>\<open>ToNumber\<close>, as a comparison or an arithmetic operator applies it.\<close>

fun to_number :: "jsval \<Rightarrow> jsnum" where
  "to_number Undefined = NaN"
| "to_number Null = Fin 0"
| "to_number (Num x) = x"

section \<open>Bars\<close>

text \<open>
  The moving averages read only the \<open>close\<close> field, and \<open>calculateMACD\<close> calls
  \<open>calculateEMA\<close> on objects that have no other field: a bar extends the record of
  the field \<open>close\<close>.
\<close>

record priced =
  close :: jsnum

record candle = priced +
  time :: nat
  opn :: jsnum
  high :: jsnum
  low :: jsnum
  volume :: jsnum

section \<open>Indicators\<close>

text \<open>
  A function that can throw returns an \<open>option\<close>: \<open>None\<close> is the \<open>TypeError\<close> of
  reading a field of \<open>undefined\<close> (\<open>candles[candles.length - 1].close\<close> on an
  empty array).  Periods are natural numbers.
\<close>

text \<open>\<open>candles[candles.length - 1].close\<close>\<close>

definition last_close :: "'a priced_scheme list \<Rightarrow> jsnum option" where
  "last_close candles = (if candles = [] then None else Some (close (last candles)))"

text \<open>The sum of the closes of the last \<open>period\<close> bars, added from the left from \<open>0\<close>.\<close>

definition sum_closes :: "'a priced_scheme list \<Rightarrow> nat \<Rightarrow> jsnum" where
  "sum_closes candles period =
     foldl (\<lambda>s c. s + close c) (Fin 0) (drop (length candles - period) candles)"

definition calculateSMA :: "'a priced_scheme list \<Rightarrow> nat \<Rightarrow> jsnum option" where
  "calculateSMA candles period =
     (if length candles < period then last_close candles
      else Some (sum_closes candles period / Fin (real period)))"

definition calculateEMA :: "'a priced_scheme list \<Rightarrow> nat \<Rightarrow> jsnum option" where
  "calculateEMA candles period =
     (if length candles < period then last_close candles
      else
        let sma = sum_closes candles period / Fin (real period);
            multiplier = Fin 2 / Fin (real period + 1)
        in Some (foldl (\<lambda>ema c. (close c - ema) * multiplier + ema) sma
                   (drop (length candles - period + 1) candles)))"


text \<open>\<open>candles[i].close - candles[i - 1].close\<close>, for \<open>1 \<le> i < candles.length\<close>.\<close>

definition change_at :: "'a priced_scheme list \<Rightarrow> nat \<Rightarrow> jsnum" where
  "change_at candles i = close (candles ! i) - close (candles ! (i - 1))"

text \<open>The body of the first loop of \<open>calculateRSI\<close>: the sums of the gains and of the losses.\<close>

definition rsi_accumulate :: "'a priced_scheme list \<Rightarrow> jsnum \<times> jsnum \<Rightarrow> nat \<Rightarrow> jsnum \<times> jsnum" where
  "rsi_accumulate candles acc i =
     (case acc of (gains, losses) \<Rightarrow>
        let change = change_at candles i
        in if Fin 0 \<le> change then (gains + change, losses) else (gains, losses - change))"

text \<open>The body of the second loop: Wilder's smoothing of the two averages.\<close>

definition rsi_smooth :: "'a priced_scheme list \<Rightarrow> nat \<Rightarrow> jsnum \<times> jsnum \<Rightarrow> nat \<Rightarrow> jsnum \<times> jsnum" where
  "rsi_smooth candles period acc i =
     (case acc of (avgGain, avgLoss) \<Rightarrow>
        let change = change_at candles i;
            currentGain = (if Fin 0 \<le> change then change else Fin 0);
            currentLoss = (if Fin 0 \<le> change then Fin 0 else - change)
        in ((avgGain * (Fin (real period) - Fin 1) + currentGain) / Fin (real period),
            (avgLoss * (Fin (real period) - Fin 1) + currentLoss) / Fin (real period)))"

definition calculateRSI :: "'a priced_scheme list \<Rightarrow> nat \<Rightarrow> jsnum" where
  "calculateRSI candles period =
     (if length candles < period + 1 then Fin 50
      else
        let (gains, losses) = foldl (rsi_accumulate candles) (Fin 0, Fin 0) [1 ..< period + 1];
            avgGain0 = gains / Fin (real period);
            avgLoss0 = losses / Fin (real period);
            (avgGain, avgLoss) =
              foldl (rsi_smooth candles period) (avgGain0, avgLoss0) [period + 1 ..< length candles]
        in if strict_eq avgLoss (Fin 0) then Fin 100
           else let rs = avgGain / avgLoss in Fin 100 - Fin 100 / (Fin 1 + rs))"

text \<open>The true range of bar \<open>i\<close> against bar \<open>i - 1\<close>, for \<open>1 \<le> i < candles.length\<close>.\<close>

definition true_range_at :: "candle list \<Rightarrow> nat \<Rightarrow> jsnum" where
  "true_range_at candles i =
     (let prevClose = close (candles ! (i - 1));
          tr1 = high (candles ! i) - low (candles ! i);
          tr2 = \<bar>high (candles ! i) - prevClose\<bar>;
          tr3 = \<bar>low (candles ! i) - prevClose\<bar>
      in Math_max (Math_max tr1 tr2) tr3)"

text \<open>Wilder's smoothing of ATR by one true range.\<close>

definition atr_smooth :: "nat \<Rightarrow> jsnum \<Rightarrow> jsnum \<Rightarrow> jsnum" where
  "atr_smooth period atr tr = (atr * (Fin (real period) - Fin 1) + tr) / Fin (real period)"

definition calculateATR :: "candle list \<Rightarrow> nat \<Rightarrow> jsnum" where
  "calculateATR candles period =
     (if length candles < period + 1 then Fin 0
      else
        let trueRanges = map (true_range_at candles) [1 ..< length candles];
            atr0 = foldl (\<lambda>atr tr. atr + tr) (Fin 0) (take period trueRanges) / Fin (real period)
        in foldl (atr_smooth period) atr0 (drop period trueRanges))"

record bollinger =
  upper :: jsnum
  middle :: jsnum
  lower :: jsnum

definition calculateBollingerBands :: "'a priced_scheme list \<Rightarrow> nat \<Rightarrow> jsnum \<Rightarrow> bollinger option" where
  "calculateBollingerBands candles period multiplier =
     (if length candles < period
      then do { c \<leftarrow> last_close candles; Some \<lparr>upper = c, middle = c, lower = c\<rparr> }
      else
        let sma = sum_closes candles period / Fin (real period);
            sumSquaredDiff =
              foldl (\<lambda>s c. let diff = close c - sma in s + diff * diff) (Fin 0)
                (drop (length candles - period) candles);
            stdDev = Math_sqrt (sumSquaredDiff / Fin (real period))
        in Some \<lparr>upper = sma + multiplier * stdDev, middle = sma,
                 lower = sma - multiplier * stdDev\<rparr>)"

text \<open>\<open>candles.slice(-n)\<close>: the last \<open>n\<close> elements, and the whole array for \<open>n = 0\<close>.\<close>

definition slice_last :: "nat \<Rightarrow> 'a list \<Rightarrow> 'a list" where
  "slice_last n xs = (if n = 0 then xs else drop (length xs - n) xs)"

record macd =
  macdLine :: jsnum
  signalLine :: jsnum
  histogram :: jsnum

definition calculateMACD :: "'a priced_scheme list \<Rightarrow> nat \<Rightarrow> nat \<Rightarrow> nat \<Rightarrow> macd option" where
  "calculateMACD candles fastPeriod slowPeriod signalPeriod =
     do {
       fastEMA \<leftarrow> calculateEMA candles fastPeriod;
       slowEMA \<leftarrow> calculateEMA candles slowPeriod;
       let macdLine = fastEMA - slowEMA;
       let macdCandles = map (\<lambda>c. \<lparr>close = fastEMA - slowEMA\<rparr>) (slice_last signalPeriod candles);
       signalLine \<leftarrow> calculateEMA macdCandles signalPeriod;
       let histogram = macdLine - signalLine;
       Some \<lparr>macdLine = macdLine, signalLine = signalLine, histogram = histogram\<rparr>
     }"

text \<open>
  \<open>xs[xs.length - 1]\<close> on an array of numbers: \<open>undefined\<close> on the empty array (an
  index out of range reads \<open>undefined\<close>, it does not throw).
\<close>

definition last_value :: "jsnum list \<Rightarrow> jsval" where
  "last_value xs = (if xs = [] then Undefined else Num (last xs))"

text \<open>One smoothing pass of \<open>%K\<close>: the mean of each value and its two predecessors.\<close>

definition smooth3 :: "jsnum list \<Rightarrow> jsnum list" where
  "smooth3 xs = map (\<lambda>i. (xs ! i + xs ! (i - 1) + xs ! (i - 2)) / Fin 3) [2 ..< length xs]"

definition raw_k_at :: "candle list \<Rightarrow> nat \<Rightarrow> nat \<Rightarrow> jsnum" where
  "raw_k_at candles period i =
     (let highestHigh = foldl (\<lambda>h j. Math_max h (high (candles ! j))) NInf [i + 1 - period ..< i + 1];
          lowestLow = foldl (\<lambda>l j. Math_min l (low (candles ! j))) PInf [i + 1 - period ..< i + 1];
          currentClose = close (candles ! i)
      in (currentClose - lowestLow) / (highestHigh - lowestLow) * Fin 100)"

record stochastic =
  percentK :: jsval
  percentD :: jsval

text \<open>
  The fields \<open>k\<close> and \<open>d\<close> of the result are \<open>percentK\<close> and \<open>percentD\<close>.  With
  \<open>period = 0\<close> the first index of the loop is \<open>-1\<close> and \<open>candles[-1].close\<close> throws.
\<close>

definition calculateStochastic :: "candle list \<Rightarrow> nat \<Rightarrow> nat \<Rightarrow> nat \<Rightarrow> stochastic option" where
  "calculateStochastic candles period smoothK smoothD =
     (if length candles < period then Some \<lparr>percentK = Num (Fin 50), percentD = Num (Fin 50)\<rparr>
      else if period = 0 then None
      else
        let rawKValues = map (raw_k_at candles period) [period - 1 ..< length candles];
            smoothedKValues = (smooth3 ^^ smoothK) rawKValues;
            dValue =
              (if smoothD \<le> length smoothedKValues
               then Num (foldl (\<lambda>s x. s + x) (Fin 0)
                           (drop (length smoothedKValues - smoothD) smoothedKValues)
                         / Fin (real smoothD))
               else last_value smoothedKValues)
        in Some \<lparr>percentK = last_value smoothedKValues, percentD = dValue\<rparr>)"

text \<open>Directional movement of bar \<open>i\<close> against bar \<open>i - 1\<close>.\<close>

definition plus_dm_at :: "candle list \<Rightarrow> nat \<Rightarrow> jsnum" where
  "plus_dm_at candles i =
     (let upMove = high (candles ! i) - high (candles ! (i - 1));
          downMove = low (candles ! (i - 1)) - low (candles ! i)
      in if downMove < upMove \<and> Fin 0 < upMove then upMove else Fin 0)"

definition minus_dm_at :: "candle list \<Rightarrow> nat \<Rightarrow> jsnum" where
  "minus_dm_at candles i =
     (let upMove = high (candles ! i) - high (candles ! (i - 1));
          downMove = low (candles ! (i - 1)) - low (candles ! i)
      in if upMove < downMove \<and> Fin 0 < downMove then downMove else Fin 0)"

text \<open>\<open>DX\<close> from the smoothed sums.\<close>

definition dx_of :: "jsnum \<Rightarrow> jsnum \<Rightarrow> jsnum \<Rightarrow> jsnum" where
  "dx_of smoothedTR smoothedPlusDM smoothedMinusDM =
     (let plusDI = smoothedPlusDM / smoothedTR * Fin 100;
          minusDI = smoothedMinusDM / smoothedTR * Fin 100
      in \<bar>plusDI - minusDI\<bar> / (plusDI + minusDI) * Fin 100)"

text \<open>
  One pass of the smoothing loop of \<open>calculateADX\<close>, on the variables
  \<open>(smoothedTR, smoothedPlusDM, smoothedMinusDM, DX)\<close>, with the true range and the
  directional movements of the bar.
\<close>

definition adx_smooth ::
  "nat \<Rightarrow> jsnum \<times> jsnum \<times> jsnum \<times> jsnum \<Rightarrow> jsnum \<times> jsnum \<times> jsnum \<Rightarrow> jsnum \<times> jsnum \<times> jsnum \<times> jsnum" where
  "adx_smooth period s x =
     (case s of (smoothedTR, smoothedPlusDM, smoothedMinusDM, DX) \<Rightarrow>
      case x of (tr, pdm, mdm) \<Rightarrow>
        let sTR = smoothedTR - smoothedTR / Fin (real period) + tr;
            sP = smoothedPlusDM - smoothedPlusDM / Fin (real period) + pdm;
            sM = smoothedMinusDM - smoothedMinusDM / Fin (real period) + mdm
        in (sTR, sP, sM, dx_of sTR sP sM))"

text \<open>The result is \<open>null\<close> (\<open>Null\<close>) on too short a history, never \<open>undefined\<close>.\<close>

definition calculateADX :: "candle list \<Rightarrow> nat \<Rightarrow> jsval" where
  "calculateADX candles period =
     (if length candles < period + 2 then Null
      else
        let trueRange = map (true_range_at candles) [1 ..< length candles];
            plusDM = map (plus_dm_at candles) [1 ..< length candles];
            minusDM = map (minus_dm_at candles) [1 ..< length candles];
            sTR = foldl (\<lambda>a b. a + b) (Fin 0) (take period trueRange);
            sP = foldl (\<lambda>a b. a + b) (Fin 0) (take period plusDM);
            sM = foldl (\<lambda>a b. a + b) (Fin 0) (take period minusDM);
            (smoothedTR, smoothedPlusDM, smoothedMinusDM, DX) =
              foldl (adx_smooth period) (sTR, sP, sM, dx_of sTR sP sM)
                (drop period (zip trueRange (zip plusDM minusDM)))
        in Num (toFixed2 DX))"

section \<open>The strategy\<close>

datatype direction = Long | Short

text \<open>
  The open position of the simulator (\<open>psize\<close> is its field \<open>size\<close>); \<open>analyze\<close> reads
  \<open>direction\<close> and \<open>entryPrice\<close> only.  \<open>volatilityPercent\<close> is the number that the
  string \<open>volatilityPercent.toFixed(2)\<close> denotes.
\<close>

record position =
  direction :: direction
  entryPrice :: jsnum
  psize :: jsnum
  margin :: jsnum
  leverage :: jsnum
  entryTime :: nat
  entryReason :: string
  stopLoss :: jsnum
  takeProfit :: jsnum
  entryBalance :: jsnum
  volatilityPercent :: jsnum
  adx :: jsval

record account =
  balance :: jsnum
  equity :: jsnum

record config =
  initialBalance :: jsnum
  feePercentage :: jsnum

text \<open>
  The signal objects that \<open>analyze\<close> returns, one constructor for each \<open>action\<close>
  (\<open>'stop'\<close>, \<open>'wait'\<close>, \<open>'hold'\<close>, \<open>'exit'\<close>, \<open>'buy'\<close>, \<open>'sell'\<close>) with the fields
  that the action carries: the reason, the price of an exit, the order of an entry.
\<close>

record entry =
  sig_reason :: string
  sig_direction :: direction
  sig_price :: jsnum
  positionSize :: jsnum
  sig_leverage :: jsnum
  sig_stopLoss :: jsnum
  sig_takeProfit :: jsnum
  sig_volatilityPercent :: jsnum
  sig_adx :: jsval

datatype signal =
    Stop string
  | Wait string
  | Hold string
  | Exit string jsnum
  | Buy entry
  | Sell entry

text \<open>The branch of \<open>analyze\<close> for an open position.\<close>

definition manage_position ::
  "candle \<Rightarrow> position \<Rightarrow> bool \<Rightarrow> bool \<Rightarrow> bool \<Rightarrow> bool \<Rightarrow> jsnum \<Rightarrow> signal" where
  "manage_position currentCandle p bullishCandle bearishCandle microUptrend microDowntrend hist =
     (let profitTarget = Fin (1 / 10);
          stopLossPct = Fin (15 / 100);
          currentPnL =
            (if direction p = Long
             then (close currentCandle - entryPrice p) / entryPrice p * Fin 100
             else (entryPrice p - close currentCandle) / entryPrice p * Fin 100)
      in if profitTarget \<le> currentPnL then Exit ''Take profit hit'' (close currentCandle)
         else if currentPnL \<le> - stopLossPct then Exit ''Stop loss hit'' (close currentCandle)
         else if direction p = Long \<and> (bearishCandle \<or> microDowntrend \<or> hist < Fin 0)
           then Exit ''Trend change'' (close currentCandle)
         else if direction p = Long \<and> Fin (5 / 100) < currentPnL
                 \<and> entryPrice p < close currentCandle * Fin (9995 / 10000)
           then Exit ''Trailing stop hit'' (close currentCandle)
         else if direction p = Short \<and> (bullishCandle \<or> microUptrend \<or> Fin 0 < hist)
           then Exit ''Trend change'' (close currentCandle)
         else if direction p = Short \<and> Fin (5 / 100) < currentPnL
                 \<and> close currentCandle * Fin (10005 / 10000) < entryPrice p
           then Exit ''Trailing stop hit'' (close currentCandle)
         else Hold ''Maintaining position'')"

text \<open>The order of an entry: the size from the risk, capped at 20% of the balance.\<close>

definition position_size :: "jsnum \<Rightarrow> jsnum \<Rightarrow> jsnum" where
  "position_size accountBalance price =
     (let riskAmount = accountBalance * (Fin (3 / 10) / Fin 100);
          stopLossAmount = price * (Fin (15 / 100) / Fin 100);
          positionSize = riskAmount / stopLossAmount;
          maxPositionValue = accountBalance * Fin (20 / 100);
          positionValue = positionSize * price
      in if maxPositionValue < positionValue then maxPositionValue / price else positionSize)"

text \<open>The branch of \<open>analyze\<close> without a position.\<close>

definition seek_entry ::
  "candle \<Rightarrow> candle \<Rightarrow> jsnum \<Rightarrow> jsnum \<Rightarrow> jsval \<Rightarrow> jsnum \<Rightarrow> jsnum \<Rightarrow> jsnum \<Rightarrow>
   stochastic \<Rightarrow> bool \<Rightarrow> bool \<Rightarrow> signal" where
  "seek_entry currentCandle previousCandle accountBalance volatility adxValue rsi prevRsi hist
     stoch microUptrend microDowntrend =
     (let bullishCandle = opn currentCandle < close currentCandle;
          bearishCandle = close currentCandle < opn currentCandle;
          momentumUp = close previousCandle < close currentCandle;
          momentumDown = close currentCandle < close previousCandle;
          positionSize = position_size accountBalance (close currentCandle);
          longSignal = ((bullishCandle \<or> momentumUp) \<and>
             (microUptrend \<or> Fin 40 < rsi \<or> Fin 0 < hist
               \<or> to_number (percentD stoch) < to_number (percentK stoch)));
          oversoldBounce = ((rsi < Fin 40 \<and> prevRsi < rsi) \<and> (bullishCandle \<or> momentumUp));
          strongTrendUp = (adxValue \<noteq> Null \<and> Fin 20 < to_number adxValue \<and> microUptrend);
          shortSignal = ((bearishCandle \<or> momentumDown) \<and>
             (microDowntrend \<or> rsi < Fin 60 \<or> hist < Fin 0
               \<or> to_number (percentK stoch) < to_number (percentD stoch)));
          overboughtDrop = ((Fin 60 < rsi \<and> rsi < prevRsi) \<and> (bearishCandle \<or> momentumDown));
          strongTrendDown = (adxValue \<noteq> Null \<and> Fin 20 < to_number adxValue \<and> microDowntrend)
      in if volatility < Fin (2 / 100) then Wait ''Extremely low volatility''
         else if adxValue \<noteq> Null \<and> to_number adxValue < Fin 15 \<and> volatility < Fin (5 / 100)
           then Wait ''Weak trend with insufficient volatility''
         else if (longSignal \<or> oversoldBounce \<or> strongTrendUp)
                 \<and> \<not> (adxValue \<noteq> Null \<and> to_number adxValue < Fin 15 \<and> Fin 60 < rsi)
           then Buy \<lparr>sig_reason = (if strongTrendUp then ''Strong uptrend detected''
                                    else if oversoldBounce then ''Oversold bounce''
                                    else ''Long setup''),
                     sig_direction = Long,
                     sig_price = close currentCandle,
                     positionSize = positionSize,
                     sig_leverage = Fin 3,
                     sig_stopLoss = close currentCandle * (Fin 1 - Fin (15 / 100) / Fin 100),
                     sig_takeProfit = close currentCandle * (Fin 1 + Fin (1 / 10) / Fin 100),
                     sig_volatilityPercent = toFixed2 volatility,
                     sig_adx = adxValue\<rparr>
         else if (shortSignal \<or> overboughtDrop \<or> strongTrendDown)
                 \<and> \<not> (adxValue \<noteq> Null \<and> to_number adxValue < Fin 15 \<and> rsi < Fin 40)
           then Sell \<lparr>sig_reason = (if strongTrendDown then ''Strong downtrend detected''
                                     else if overboughtDrop then ''Overbought drop''
                                     else ''Short setup''),
                      sig_direction = Short,
                      sig_price = close currentCandle,
                      positionSize = positionSize,
                      sig_leverage = Fin 3,
                      sig_stopLoss = close currentCandle * (Fin 1 + Fin (15 / 100) / Fin 100),
                      sig_takeProfit = close currentCandle * (Fin 1 - Fin (1 / 10) / Fin 100),
                      sig_volatilityPercent = toFixed2 volatility,
                      sig_adx = adxValue\<rparr>
         else Wait ''Waiting for setup'')"

text \<open>
  \<open>analyze\<close>.  \<open>account.balance || 1000\<close> replaces a falsy balance (\<open>0\<close>, \<open>NaN\<close>) by
  \<open>1000\<close> before the bankruptcy test.  All indicators are computed before the position
  is looked at; \<open>candles.slice(0, -1)\<close> is \<open>butlast candles\<close>.  The locals
  \<open>volatilityPercent\<close> and \<open>adx\<close> are \<open>volatility\<close> and \<open>adxValue\<close> here.
  The two engulfing patterns and the previous values of \<open>ema8\<close> and of the stochastic are computed and not
  used; the pattern predicates are comparisons and cannot throw.
\<close>

definition analyze :: "candle list \<Rightarrow> position option \<Rightarrow> account \<Rightarrow> config \<Rightarrow> signal option" where
  "analyze candles currentPosition account config =
     (let accountBalance = (if truthy (balance account) then balance account else Fin 1000)
      in if accountBalance \<le> Fin 0 then Some (Stop ''Account bankrupt - balance is zero or negative'')
         else if length candles < 15 then Some (Wait ''Not enough data'')
         else do {
           let currentCandle = candles ! (length candles - 1);
           let previousCandle = candles ! (length candles - 2);
           ema5 \<leftarrow> calculateEMA candles 5;
           ema8 \<leftarrow> calculateEMA candles 8;
           ema13 \<leftarrow> calculateEMA candles 13;
           prevEma5 \<leftarrow> calculateEMA (butlast candles) 5;
           prevEma8 \<leftarrow> calculateEMA (butlast candles) 8;
           let rsi = calculateRSI candles 14;
           let prevRsi = calculateRSI (butlast candles) 14;
           let atr = calculateATR candles 14;
           let volatility =
                 (if Fin 0 < close currentCandle then atr / close currentCandle * Fin 100 else Fin 0);
           let adxValue = calculateADX candles 14;
           macd \<leftarrow> calculateMACD candles 12 26 9;
           prevMacd \<leftarrow> calculateMACD (butlast candles) 12 26 9;
           stoch \<leftarrow> calculateStochastic candles 14 1 3;
           prevStoch \<leftarrow> calculateStochastic (butlast candles) 14 1 3;
           let bullishCandle = opn currentCandle < close currentCandle;
           let bearishCandle = close currentCandle < opn currentCandle;
           let microUptrend = prevEma5 < ema5;
           let microDowntrend = ema5 < prevEma5;
           Some (case currentPosition of
                   Some p \<Rightarrow> manage_position currentCandle p bullishCandle bearishCandle
                               microUptrend microDowntrend (histogram macd)
                 | None \<Rightarrow> seek_entry currentCandle previousCandle accountBalance volatility
                               adxValue rsi prevRsi (histogram macd) stoch microUptrend microDowntrend)
         })"


section \<open>The simulator\<close>

text \<open>A closed trade is the position (\<open>...currentPosition\<close>) with the fields of the exit.\<close>

record trade = position +
  exitPrice :: jsnum
  exitTime :: nat
  exitReason :: string
  profit :: jsnum
  profitPercentage :: jsnum
  fees :: jsnum

text \<open>
  \<open>tradeHistory\<close> holds the closed trades and the entry of a halt
  (\<open>{timestamp, action: 'stop', reason, balance}\<close>), which has no \<open>profit\<close> field.
\<close>

datatype ledger_entry = TradeEntry trade | StopEntry nat string jsnum

fun profit_of :: "ledger_entry \<Rightarrow> jsval" where
  "profit_of (TradeEntry t) = Num (profit t)"
| "profit_of (StopEntry ts r b) = Undefined"

record sim_state =
  tradingAccount :: account
  currentPosition :: "position option"
  tradeHistory :: "ledger_entry list"

text \<open>The end of one pass through the loop body: the next bar, or \<open>break\<close>.\<close>

datatype flow = Proceed sim_state | Break sim_state

text \<open>The fee on a margin: \<open>margin * (config.feePercentage / 100)\<close>, at entry and at exit.\<close>

definition fee_of :: "config \<Rightarrow> jsnum \<Rightarrow> jsnum" where
  "fee_of config m = m * (feePercentage config / Fin 100)"

text \<open>The profit of a position closed at a price, before the fee.\<close>

definition position_pnl :: "'a position_scheme \<Rightarrow> jsnum \<Rightarrow> jsnum" where
  "position_pnl p currentPrice =
     (if direction p = Long then (currentPrice - entryPrice p) * psize p
      else (entryPrice p - currentPrice) * psize p)"

text \<open>
  Closing the position at the close of the bar.  The source has this block five times
  (the strategy's exit, and stop loss and take profit for each direction), the same but
  for the exit reason; the profit of a position that is not long is the short one.
\<close>

definition close_position :: "config \<Rightarrow> candle \<Rightarrow> string \<Rightarrow> position \<Rightarrow> sim_state \<Rightarrow> sim_state" where
  "close_position config currentCandle reason p st =
     (let currentPrice = close currentCandle;
          pnl = position_pnl p currentPrice;
          exitFees = fee_of config (margin p);
          totalPnl = pnl - exitFees;
          profitPct = totalPnl / margin p * Fin 100;
          t = position.extend p
                (trade.fields currentPrice (time currentCandle) reason totalPnl profitPct exitFees)
      in st\<lparr>tradeHistory := tradeHistory st @ [TradeEntry t],
            tradingAccount := (tradingAccount st)
              \<lparr>balance := balance (tradingAccount st) + (margin p + totalPnl)\<rparr>,
            currentPosition := None\<rparr>)"

text \<open>
  The size and the margin of an entry: \<open>signal.positionSize * signal.leverage\<close> and
  \<open>(positionSize * currentPrice) / signal.leverage\<close>.
\<close>

definition leveraged_size :: "entry \<Rightarrow> jsnum" where
  "leveraged_size e = positionSize e * sig_leverage e"

definition entry_margin :: "entry \<Rightarrow> jsnum \<Rightarrow> jsnum" where
  "entry_margin e currentPrice = leveraged_size e * currentPrice / sig_leverage e"

text \<open>
  An entry signal without an open position (the branches for \<open>'buy'\<close> and \<open>'sell'\<close>
  are the same): \<open>continue\<close> when margin and fee exceed the balance.
\<close>

definition enter_position :: "config \<Rightarrow> candle \<Rightarrow> entry \<Rightarrow> sim_state \<Rightarrow> flow" where
  "enter_position config currentCandle e st =
     (let currentPrice = close currentCandle;
          marginNeeded = entry_margin e currentPrice;
          entryFees = fee_of config marginNeeded
      in if balance (tradingAccount st) < marginNeeded + entryFees then Proceed st
         else Proceed (st
           \<lparr>currentPosition := Some
              \<lparr>direction = sig_direction e, entryPrice = currentPrice, psize = leveraged_size e,
               margin = marginNeeded, leverage = sig_leverage e, entryTime = time currentCandle,
               entryReason = sig_reason e, stopLoss = sig_stopLoss e,
               takeProfit = sig_takeProfit e, entryBalance = balance (tradingAccount st),
               volatilityPercent = sig_volatilityPercent e, adx = sig_adx e\<rparr>,
            tradingAccount := (tradingAccount st)
              \<lparr>balance := balance (tradingAccount st) - (marginNeeded + entryFees)\<rparr>\<rparr>))"

text \<open>The last branch of the chain: stop loss and take profit against the stored levels.\<close>

definition monitor_price :: "config \<Rightarrow> candle \<Rightarrow> sim_state \<Rightarrow> flow" where
  "monitor_price config currentCandle st =
     (case currentPosition st of
        None \<Rightarrow> Proceed st
      | Some p \<Rightarrow>
          let currentPrice = close currentCandle
          in if direction p = Long then
               (if currentPrice \<le> stopLoss p
                  then Proceed (close_position config currentCandle ''Stop loss triggered'' p st)
                else if takeProfit p \<le> currentPrice
                  then Proceed (close_position config currentCandle ''Take profit triggered'' p st)
                else Proceed st)
             else
               (if stopLoss p \<le> currentPrice
                  then Proceed (close_position config currentCandle ''Stop loss triggered'' p st)
                else if currentPrice \<le> takeProfit p
                  then Proceed (close_position config currentCandle ''Take profit triggered'' p st)
                else Proceed st))"

text \<open>What the loop body does with the signal of the strategy.\<close>

fun apply_signal :: "config \<Rightarrow> candle \<Rightarrow> signal \<Rightarrow> sim_state \<Rightarrow> flow" where
  "apply_signal config currentCandle (Stop reason) st =
     Break (st\<lparr>tradeHistory := tradeHistory st @
              [StopEntry (time currentCandle) reason (balance (tradingAccount st))]\<rparr>)"
| "apply_signal config currentCandle (Buy e) st =
     (if currentPosition st = None then enter_position config currentCandle e st
      else monitor_price config currentCandle st)"
| "apply_signal config currentCandle (Sell e) st =
     (if currentPosition st = None then enter_position config currentCandle e st
      else monitor_price config currentCandle st)"
| "apply_signal config currentCandle (Exit reason price) st =
     (case currentPosition st of
        Some p \<Rightarrow> Proceed (close_position config currentCandle reason p st)
      | None \<Rightarrow> monitor_price config currentCandle st)"
| "apply_signal config currentCandle (Wait reason) st = monitor_price config currentCandle st"
| "apply_signal config currentCandle (Hold reason) st = monitor_price config currentCandle st"

text \<open>
  The loop body at index \<open>i\<close>, with the strategy module as a parameter (the simulator
  calls \<open>strategy.analyze\<close>): the strategy sees \<open>priceData.slice(0, i + 1)\<close>.  The
  body stops the loop without a ledger entry when a position is open and the balance is
  below \<open>0.5\<close>.  \<open>None\<close> is an exception thrown by the strategy.  Writing to the console
  changes nothing and is left out.
\<close>

type_synonym strategy = "candle list \<Rightarrow> position option \<Rightarrow> account \<Rightarrow> config \<Rightarrow> signal option"

definition sim_step_with :: "strategy \<Rightarrow> config \<Rightarrow> candle list \<Rightarrow> nat \<Rightarrow> sim_state \<Rightarrow> flow option" where
  "sim_step_with strategy config priceData i st =
     (let candles = take (i + 1) priceData;
          currentCandle = candles ! i
      in if \<not> (balance (tradingAccount st) < Fin 2 \<and> currentPosition st = None)
            \<and> balance (tradingAccount st) < Fin (1 / 2)
         then Some (Break st)
         else do {
           signal \<leftarrow> strategy candles (currentPosition st) (tradingAccount st) config;
           Some (apply_signal config currentCandle signal st)
         })"

text \<open>\<open>for (let i = 50; i < priceData.length; i++)\<close>, over the list of the indices.\<close>

fun sim_loop_with :: "strategy \<Rightarrow> config \<Rightarrow> candle list \<Rightarrow> nat list \<Rightarrow> sim_state \<Rightarrow> sim_state option" where
  "sim_loop_with strategy config priceData [] st = Some st"
| "sim_loop_with strategy config priceData (i # is) st =
     (case sim_step_with strategy config priceData i st of
        None \<Rightarrow> None
      | Some (Break st') \<Rightarrow> Some st'
      | Some (Proceed st') \<Rightarrow> sim_loop_with strategy config priceData is st')"

text \<open>The strategy of the simulator is \<open>analyze\<close>.\<close>

definition sim_step :: "config \<Rightarrow> candle list \<Rightarrow> nat \<Rightarrow> sim_state \<Rightarrow> flow option" where
  "sim_step = sim_step_with analyze"

definition sim_loop :: "config \<Rightarrow> candle list \<Rightarrow> nat list \<Rightarrow> sim_state \<Rightarrow> sim_state option" where
  "sim_loop = sim_loop_with analyze"

record stats =
  stats_initialBalance :: jsnum
  finalBalance :: jsnum
  totalTrades :: nat
  winningTrades :: nat
  losingTrades :: nat
  winRate :: jsnum
  profitFactor :: jsnum
  pnl :: jsnum
  pnlPercentage :: jsnum

definition calculate_stats :: "config \<Rightarrow> sim_state \<Rightarrow> stats" where
  "calculate_stats config st =
     (let history = tradeHistory st;
          winning = filter (\<lambda>t. Fin 0 < to_number (profit_of t)) history;
          losing = filter (\<lambda>t. to_number (profit_of t) \<le> Fin 0) history;
          totalProfit = foldl (\<lambda>sum t. sum + to_number (profit_of t)) (Fin 0) winning;
          totalLoss = \<bar>foldl (\<lambda>sum t. sum + to_number (profit_of t)) (Fin 0) losing\<bar>;
          final = balance (tradingAccount st)
      in \<lparr>stats_initialBalance = initialBalance config,
          finalBalance = final,
          totalTrades = length history,
          winningTrades = length winning,
          losingTrades = length losing,
          winRate = (if 0 < length history
                     then Fin (real (length winning)) / Fin (real (length history)) * Fin 100
                     else Fin 0),
          profitFactor = (if Fin 0 < totalLoss then totalProfit / totalLoss
                          else if Fin 0 < totalProfit then PInf else Fin 0),
          pnl = final - initialBalance config,
          pnlPercentage = (final / initialBalance config - Fin 1) * Fin 100\<rparr>)"

text \<open>
  \<open>run\<close>.  The database is outside: \<open>fetched\<close> is the result of the first
  \<open>fetchPriceData\<close>, \<open>importedCount\<close> the number of records that
  \<open>importCSVToDatabase\<close> reports and \<open>refetched\<close> the result of the second
  \<open>fetchPriceData\<close>; saving the results is taken to succeed.  \<open>run\<close> throws when it
  finds no bars, and it rethrows what the loop throws.
\<close>

datatype run_error = MissingData | TypeError

definition load_price_data :: "candle list \<Rightarrow> nat \<Rightarrow> candle list \<Rightarrow> run_error + candle list" where
  "load_price_data fetched importedCount refetched =
     (if fetched = [] then
        (let priceData = (if 0 < importedCount then refetched else fetched)
         in if priceData = [] then Inl MissingData else Inr priceData)
      else Inr fetched)"

definition createAccount :: "jsnum \<Rightarrow> account" where
  "createAccount initial = \<lparr>balance = initial, equity = initial\<rparr>"

definition initial_state :: "config \<Rightarrow> sim_state" where
  "initial_state config =
     \<lparr>tradingAccount = createAccount (initialBalance config), currentPosition = None,
      tradeHistory = []\<rparr>"

definition run_with ::
  "strategy \<Rightarrow> config \<Rightarrow> candle list \<Rightarrow> nat \<Rightarrow> candle list \<Rightarrow> run_error + (stats \<times> ledger_entry list)" where
  "run_with strategy config fetched importedCount refetched =
     (case load_price_data fetched importedCount refetched of
        Inl e \<Rightarrow> Inl e
      | Inr priceData \<Rightarrow>
          (case sim_loop_with strategy config priceData [50 ..< length priceData]
                  (initial_state config) of
             None \<Rightarrow> Inl TypeError
           | Some st \<Rightarrow> Inr (calculate_stats config st, tradeHistory st)))"

definition run :: "config \<Rightarrow> candle list \<Rightarrow> nat \<Rightarrow> candle list \<Rightarrow> run_error + (stats \<times> ledger_entry list)" where
  "run = run_with analyze"

section \<open>Scenario data\<close>

text \<open>The bar of time \<open>t\<close> with the given open, high, low and close.\<close>

definition bar :: "nat \<Rightarrow> real \<Rightarrow> real \<Rightarrow> real \<Rightarrow> real \<Rightarrow> candle" where
  "bar t opening h l c =
     \<lparr>close = Fin c, time = t, opn = Fin opening, high = Fin h, low = Fin l, volume = Fin 1\<rparr>"

text \<open>\<open>n\<close> flat bars at the price \<open>p\<close>, at the times \<open>0, \<dots>, n - 1\<close>.\<close>

definition flat_bars :: "nat \<Rightarrow> real \<Rightarrow> candle list" where
  "flat_bars n p = map (\<lambda>t. bar t p p p p) [0 ..< n]"

definition is_flat :: "real \<Rightarrow> candle \<Rightarrow> bool" where
  "is_flat p c = (close c = Fin p \<and> opn c = Fin p \<and> high c = Fin p \<and> low c = Fin p)"

text \<open>The defaults of the configuration: a balance of 10000 and a fee of 0.075 percent.\<close>

definition default_config :: config where
  "default_config = \<lparr>initialBalance = Fin 10000, feePercentage = Fin (75 / 1000)\<rparr>"

text \<open>
  A history of 55 bars: 51 flat bars at 6100, a bar that falls to 6000, a bar that rises to
  15997, and two flat bars at 15997.
\<close>

definition scenario_bars :: "candle list" where
  "scenario_bars = flat_bars 51 6100
     @ [bar 51 6100 6100 6000 6000, bar 52 6000 15997 6000 15997,
        bar 53 15997 15997 15997 15997, bar 54 15997 15997 15997 15997]"

text \<open>
  The run on this history: the position that is opened at bar 51, the trade that closes it
  at bar 52, the state after bar 51 and the state after bar 52.
\<close>

text \<open>The first 52 and the first 53 bars of the history.\<close>

definition bars52 :: "candle list" where
  "bars52 = flat_bars 51 6100 @ [bar 51 6100 6100 6000 6000]"

definition bars53 :: "candle list" where
  "bars53 = bars52 @ [bar 52 6000 15997 6000 15997]"

definition scenario_position :: position where
  "scenario_position =
     \<lparr>direction = Short, entryPrice = Fin 6000, psize = Fin 1, margin = Fin 2000,
      leverage = Fin 3, entryTime = 51, entryReason = ''Strong downtrend detected'',
      stopLoss = Fin 6009, takeProfit = Fin 5994, entryBalance = Fin 10000,
      volatilityPercent = Fin (3 / 25), adx = Num (Fin 100)\<rparr>"

definition scenario_trade :: trade where
  "scenario_trade = position.extend scenario_position
     (trade.fields (Fin 15997) 52 ''Stop loss hit'' (Fin (- (19997 / 2)))
        (Fin (- (19997 / 40))) (Fin (3 / 2)))"

definition scenario_open :: sim_state where
  "scenario_open =
     \<lparr>tradingAccount = \<lparr>balance = Fin (15997 / 2), equity = Fin 10000\<rparr>,
      currentPosition = Some scenario_position, tradeHistory = []\<rparr>"

definition scenario_closed :: sim_state where
  "scenario_closed =
     \<lparr>tradingAccount = \<lparr>balance = Fin 0, equity = Fin 10000\<rparr>,
      currentPosition = None, tradeHistory = [TradeEntry scenario_trade]\<rparr>"

text \<open>
  A state with a balance of exactly \<open>0\<close> and no position, and the entry that the strategy
  asks for in it at bar 51 (the strategy sizes the order from a balance of 1000).
\<close>

definition broke :: sim_state where
  "broke = \<lparr>tradingAccount = \<lparr>balance = Fin 0, equity = Fin 10000\<rparr>,
            currentPosition = None, tradeHistory = []\<rparr>"

definition skipped_entry :: entry where
  "skipped_entry =
     \<lparr>sig_reason = ''Strong downtrend detected'', sig_direction = Short,
      sig_price = Fin 6000, positionSize = Fin (1 / 30), sig_leverage = Fin 3,
      sig_stopLoss = Fin 6009, sig_takeProfit = Fin 5994,
      sig_volatilityPercent = Fin (3 / 25), sig_adx = Num (Fin 100)\<rparr>"




section \<open>Fallback values on a short history\<close>

text \<open>
  Claim C6, as stated, fails on the empty history: \<open>calculateSMA\<close>, \<open>calculateEMA\<close>
  and \<open>calculateBollingerBands\<close> read \<open>candles[candles.length - 1].close\<close>, which
  throws a \<open>TypeError\<close> when there is no bar.
\<close>

theorem empty_history_throws:
  "calculateSMA ([] :: candle list) 20 = None \<and> calculateEMA ([] :: candle list) 20 = None
   \<and> calculateBollingerBands ([] :: candle list) 20 (Fin 2) = None"
  by (simp add: calculateSMA_def calculateEMA_def calculateBollingerBands_def last_close_def)

text \<open>
  Claim C6, amended.  On a history that is not empty and has fewer bars than the period,
  the simple and the exponential moving average and the three Bollinger bands are the
  latest close.  On every history, the empty one included, RSI is 50 with fewer than
  \<open>period + 1\<close> bars, ATR is 0 with fewer than \<open>period + 1\<close> bars, the stochastic is
  \<open>{k: 50, d: 50}\<close> with fewer than \<open>period\<close> bars and ADX is \<open>null\<close> with fewer than
  \<open>period + 2\<close> bars; none of these calls throws.
\<close>

theorem short_history_fallback:
  "(candles \<noteq> [] \<and> length candles < period \<longrightarrow>
      calculateSMA candles period = Some (close (last candles))
      \<and> calculateEMA candles period = Some (close (last candles))
      \<and> calculateBollingerBands candles period multiplier
          = Some \<lparr>upper = close (last candles), middle = close (last candles),
                   lower = close (last candles)\<rparr>)
   \<and> (length candles < period + 1 \<longrightarrow>
        calculateRSI candles period = Fin 50 \<and> calculateATR candles period = Fin 0)
   \<and> (length candles < period \<longrightarrow>
        calculateStochastic candles period smoothK smoothD
          = Some \<lparr>percentK = Num (Fin 50), percentD = Num (Fin 50)\<rparr>)
   \<and> (length candles < period + 2 \<longrightarrow> calculateADX candles period = Null)"
  by (simp add: calculateSMA_def calculateEMA_def calculateBollingerBands_def last_close_def
        calculateRSI_def calculateATR_def calculateStochastic_def calculateADX_def)

theorem short_history_fallback_witness:
  "flat_bars 1 100 \<noteq> [] \<and> length (flat_bars 1 100) < 14
   \<and> calculateSMA (flat_bars 1 100) 14 = Some (Fin 100)
   \<and> calculateEMA (flat_bars 1 100) 14 = Some (Fin 100)
   \<and> calculateBollingerBands (flat_bars 1 100) 14 (Fin 2)
       = Some \<lparr>upper = Fin 100, middle = Fin 100, lower = Fin 100\<rparr>
   \<and> calculateRSI (flat_bars 1 100) 14 = Fin 50
   \<and> calculateATR (flat_bars 1 100) 14 = Fin 0
   \<and> calculateStochastic (flat_bars 1 100) 14 1 3
       = Some \<lparr>percentK = Num (Fin 50), percentD = Num (Fin 50)\<rparr>
   \<and> calculateADX (flat_bars 1 100) 14 = Null"
  using short_history_fallback [of "flat_bars 1 100" 14 "Fin 2" 1 3]
  by (simp add: flat_bars_def bar_def)

section \<open>The stochastic just above its length guard\<close>

lemma smooth3_short: "length xs \<le> 2 \<Longrightarrow> smooth3 xs = []"
  by (simp add: smooth3_def)

text \<open>
  Claim C10.  With \<open>smoothK = 1\<close> and \<open>smoothD = 3\<close>, a history of \<open>period\<close> or
  \<open>period + 1\<close> bars passes the length guard, has one or two raw values, and the
  smoothing pass leaves none: the result is \<open>{k: undefined, d: undefined}\<close>.
\<close>

theorem stochastic_undefined:
  assumes "1 \<le> period" and "period \<le> length candles" and "length candles \<le> period + 1"
  shows "calculateStochastic candles period 1 3 = Some \<lparr>percentK = Undefined, percentD = Undefined\<rparr>"
proof -
  let ?raw = "map (raw_k_at candles period) [period - 1 ..< length candles]"
  have "length ?raw \<le> 2" using assms by simp
  then have "smooth3 ?raw = []" by (rule smooth3_short)
  then show ?thesis using assms
    by (simp add: calculateStochastic_def last_value_def Let_def)
qed

theorem stochastic_undefined_witness:
  "(1::nat) \<le> 14 \<and> 14 \<le> length (flat_bars 15 100)
   \<and> length (flat_bars 15 100) \<le> 14 + 1
   \<and> calculateStochastic (flat_bars 15 100) 14 1 3
       = Some \<lparr>percentK = Undefined, percentD = Undefined\<rparr>"
  using stochastic_undefined [of 14 "flat_bars 15 100"] by (simp add: flat_bars_def)

section \<open>Division by zero in the stochastic and in ADX\<close>

text \<open>
  Claim C7 at sixteen flat bars.  The window has \<open>highestHigh = lowestLow\<close> and the
  smoothed true range is \<open>0\<close>; neither division is guarded, both are \<open>0/0\<close>, and the
  stochastic and ADX return \<open>NaN\<close>.
\<close>

theorem flat_window_nan:
  "calculateStochastic (flat_bars 16 100) 14 1 3
     = Some \<lparr>percentK = Num NaN, percentD = Num NaN\<rparr>
   \<and> calculateADX (flat_bars 16 100) 14 = Num NaN"
  by code_simp


section \<open>The strategy never throws\<close>

lemma foldl_invariant:
  assumes "P s" and "\<And>s x. x \<in> set xs \<Longrightarrow> P s \<Longrightarrow> P (f s x)"
  shows "P (foldl f s xs)"
  using assms by (induction xs arbitrary: s) auto

lemma foldl_replicate_fixed: "f s x = s \<Longrightarrow> foldl f s (replicate k x) = s"
  by (induction k) auto

lemma calculateEMA_returns: "candles \<noteq> [] \<Longrightarrow> \<exists>v. calculateEMA candles period = Some v"
  by (simp add: calculateEMA_def last_close_def Let_def)

lemma slice_last_nonempty: "xs \<noteq> [] \<Longrightarrow> slice_last n xs \<noteq> []"
  by (cases xs) (auto simp: slice_last_def)

lemma calculateMACD_returns:
  assumes "candles \<noteq> []"
  shows "\<exists>m. calculateMACD candles fastPeriod slowPeriod signalPeriod = Some m"
proof -
  obtain f where f: "calculateEMA candles fastPeriod = Some f"
    using calculateEMA_returns [OF assms] by blast
  obtain s where s: "calculateEMA candles slowPeriod = Some s"
    using calculateEMA_returns [OF assms] by blast
  have "map (\<lambda>c. \<lparr>close = f - s\<rparr>) (slice_last signalPeriod candles) \<noteq> []"
    using slice_last_nonempty [OF assms] by simp
  then obtain g where
    "calculateEMA (map (\<lambda>c. \<lparr>close = f - s\<rparr>) (slice_last signalPeriod candles)) signalPeriod = Some g"
    using calculateEMA_returns by blast
  then show ?thesis using f s by (simp add: calculateMACD_def Let_def)
qed

lemma calculateStochastic_returns:
  "period \<noteq> 0 \<Longrightarrow> \<exists>s. calculateStochastic candles period smoothK smoothD = Some s"
  by (simp add: calculateStochastic_def Let_def)

text \<open>
  With fifteen bars or more and a balance that is not bankrupt, every indicator returns
  and the signal is the one of the branch for the position.
\<close>

lemma analyze_unfold:
  assumes "15 \<le> length candles"
    and "\<not> (if truthy (balance account) then balance account else Fin 1000) \<le> Fin 0"
  shows "\<exists>ema5 prevEma5 m stoch.
    calculateEMA candles 5 = Some ema5 \<and> calculateEMA (butlast candles) 5 = Some prevEma5
    \<and> calculateMACD candles 12 26 9 = Some m
    \<and> calculateStochastic candles 14 1 3 = Some stoch
    \<and> analyze candles pos account config =
      Some (case pos of
          Some p \<Rightarrow> manage_position (candles ! (length candles - 1)) p
             (opn (candles ! (length candles - 1)) < close (candles ! (length candles - 1)))
             (close (candles ! (length candles - 1)) < opn (candles ! (length candles - 1)))
             (prevEma5 < ema5) (ema5 < prevEma5) (histogram m)
        | None \<Rightarrow> seek_entry (candles ! (length candles - 1)) (candles ! (length candles - 2))
             (if truthy (balance account) then balance account else Fin 1000)
             (if Fin 0 < close (candles ! (length candles - 1))
              then calculateATR candles 14 / close (candles ! (length candles - 1)) * Fin 100
              else Fin 0)
             (calculateADX candles 14) (calculateRSI candles 14)
             (calculateRSI (butlast candles) 14) (histogram m) stoch
             (prevEma5 < ema5) (ema5 < prevEma5))"
proof -
  have ne: "candles \<noteq> []" and ne': "butlast candles \<noteq> []"
    using assms(1) by (auto simp: butlast_conv_take)
  obtain e5 e8 e13 p5 p8 where ema:
    "calculateEMA candles 5 = Some e5" "calculateEMA candles 8 = Some e8"
    "calculateEMA candles 13 = Some e13" "calculateEMA (butlast candles) 5 = Some p5"
    "calculateEMA (butlast candles) 8 = Some p8"
    using calculateEMA_returns [OF ne] calculateEMA_returns [OF ne'] by meson
  obtain m pm where macd:
    "calculateMACD candles 12 26 9 = Some m" "calculateMACD (butlast candles) 12 26 9 = Some pm"
    using calculateMACD_returns [OF ne] calculateMACD_returns [OF ne'] by meson
  obtain st pst where stoch:
    "calculateStochastic candles 14 1 3 = Some st"
    "calculateStochastic (butlast candles) 14 1 3 = Some pst"
    using calculateStochastic_returns [of 14] by (metis zero_neq_numeral)
  show ?thesis
    using assms ema macd stoch by (simp add: analyze_def Let_def split: option.split)
qed

lemma analyze_no_position:
  assumes "15 \<le> length candles"
    and "\<not> (if truthy (balance account) then balance account else Fin 1000) \<le> Fin 0"
  shows "\<exists>hist stoch up down.
    analyze candles None account config =
      Some (seek_entry (candles ! (length candles - 1)) (candles ! (length candles - 2))
             (if truthy (balance account) then balance account else Fin 1000)
             (if Fin 0 < close (candles ! (length candles - 1))
              then calculateATR candles 14 / close (candles ! (length candles - 1)) * Fin 100
              else Fin 0)
             (calculateADX candles 14) (calculateRSI candles 14)
             (calculateRSI (butlast candles) 14) hist stoch up down)"
  using analyze_unfold [OF assms, of None config]
  by (elim exE conjE) (simp only: option.case, blast)

lemma analyze_in_position:
  assumes "15 \<le> length candles"
    and "\<not> (if truthy (balance account) then balance account else Fin 1000) \<le> Fin 0"
  shows "\<exists>hist up down.
    analyze candles (Some p) account config =
      Some (manage_position (candles ! (length candles - 1)) p
             (opn (candles ! (length candles - 1)) < close (candles ! (length candles - 1)))
             (close (candles ! (length candles - 1)) < opn (candles ! (length candles - 1)))
             up down hist)"
  using analyze_unfold [OF assms, of "Some p" config]
  by (elim exE conjE) (simp only: option.case, blast)

lemma manage_position_cases:
  "(\<exists>r. manage_position cc p bull bear up down hist = Exit r (close cc))
   \<or> manage_position cc p bull bear up down hist = Hold ''Maintaining position''"
  by (simp add: manage_position_def Let_def)

lemma seek_entry_cases:
  "(\<exists>r. seek_entry cc pc bal vol adxv rsi prsi hist stoch up down = Wait r)
   \<or> (\<not> vol < Fin (2 / 100) \<and>
       (\<exists>e. (seek_entry cc pc bal vol adxv rsi prsi hist stoch up down = Buy e
             \<or> seek_entry cc pc bal vol adxv rsi prsi hist stoch up down = Sell e)
            \<and> positionSize e = position_size bal (close cc) \<and> sig_leverage e = Fin 3))"
  by (simp add: seek_entry_def Let_def)

lemma analyze_returns: "\<exists>sig. analyze candles pos account config = Some sig"
proof (cases "(if truthy (balance account) then balance account else Fin 1000) \<le> Fin 0")
  case True
  then show ?thesis by (simp add: analyze_def)
next
  case nb: False
  show ?thesis
  proof (cases "length candles < 15")
    case True
    then show ?thesis using nb by (simp add: analyze_def)
  next
    case False
    then have "15 \<le> length candles" by simp
    from analyze_unfold [OF this nb, of pos config] show ?thesis by blast
  qed
qed

lemma analyze_with_position:
  assumes "analyze candles (Some p) account config = Some sig"
  shows "(\<exists>r. sig = Stop r) \<or> (\<exists>r. sig = Wait r) \<or> (\<exists>r pr. sig = Exit r pr) \<or> (\<exists>r. sig = Hold r)"
proof (cases "(if truthy (balance account) then balance account else Fin 1000) \<le> Fin 0")
  case True
  then show ?thesis using assms by (auto simp: analyze_def)
next
  case nb: False
  show ?thesis
  proof (cases "length candles < 15")
    case True
    then show ?thesis using nb assms by (auto simp: analyze_def)
  next
    case False
    then have "15 \<le> length candles" by simp
    from analyze_in_position [OF this nb, of p config] assms
    show ?thesis using manage_position_cases by (metis option.inject)
  qed
qed

lemma analyze_entry_no_position:
  assumes "analyze candles pos account config = Some sig" and "sig = Buy e \<or> sig = Sell e"
  shows "pos = None"
proof (cases pos)
  case None
  then show ?thesis .
next
  case (Some p)
  with assms(1) analyze_with_position [of candles p account config sig] assms(2)
  show ?thesis by auto
qed

lemma analyze_no_position_cases:
  assumes "15 \<le> length candles"
    and "\<not> (if truthy (balance account) then balance account else Fin 1000) \<le> Fin 0"
  shows "(\<exists>r. analyze candles None account config = Some (Wait r))
    \<or> (Fin 0 < close (candles ! (length candles - 1))
       \<and> (\<exists>e. (analyze candles None account config = Some (Buy e)
                \<or> analyze candles None account config = Some (Sell e))
            \<and> positionSize e = position_size
                  (if truthy (balance account) then balance account else Fin 1000)
                  (close (candles ! (length candles - 1)))
            \<and> sig_leverage e = Fin 3))"
proof -
  let ?cc = "candles ! (length candles - 1)"
  let ?vol = "if Fin 0 < close ?cc then calculateATR candles 14 / close ?cc * Fin 100 else Fin 0"
  obtain hist stoch up down where eq:
    "analyze candles None account config =
      Some (seek_entry ?cc (candles ! (length candles - 2))
             (if truthy (balance account) then balance account else Fin 1000) ?vol
             (calculateADX candles 14) (calculateRSI candles 14)
             (calculateRSI (butlast candles) 14) hist stoch up down)"
    using analyze_no_position [OF assms, of config] by blast
  have "Fin 0 < close ?cc" if "\<not> ?vol < Fin (2 / 100)"
    using that by (cases "Fin 0 < close ?cc") auto
  then show ?thesis
    unfolding eq
    using seek_entry_cases [of ?cc "candles ! (length candles - 2)"
          "if truthy (balance account) then balance account else Fin 1000" ?vol
          "calculateADX candles 14" "calculateRSI candles 14" "calculateRSI (butlast candles) 14"
          hist stoch up down]
    by blast
qed

lemma analyze_no_position_ema:
  assumes "15 \<le> length candles"
    and "\<not> (if truthy (balance account) then balance account else Fin 1000) \<le> Fin 0"
  shows "\<exists>ema5 prevEma5 hist stoch.
    calculateEMA candles 5 = Some ema5 \<and> calculateEMA (butlast candles) 5 = Some prevEma5
    \<and> analyze candles None account config =
      Some (seek_entry (candles ! (length candles - 1)) (candles ! (length candles - 2))
             (if truthy (balance account) then balance account else Fin 1000)
             (if Fin 0 < close (candles ! (length candles - 1))
              then calculateATR candles 14 / close (candles ! (length candles - 1)) * Fin 100
              else Fin 0)
             (calculateADX candles 14) (calculateRSI candles 14)
             (calculateRSI (butlast candles) 14) hist stoch
             (prevEma5 < ema5) (ema5 < prevEma5))"
  using analyze_unfold [OF assms, of None config]
  by (elim exE conjE) (simp only: option.case, blast)

section \<open>A flat market\<close>

lemma flat_bars_flat: "list_all (is_flat p) (flat_bars n p)"
  by (simp add: flat_bars_def list_all_iff is_flat_def bar_def)

lemma length_flat_bars: "length (flat_bars n p) = n"
  by (simp add: flat_bars_def)

lemma flat_nth: "list_all (is_flat p) cs \<Longrightarrow> i < length cs \<Longrightarrow> is_flat p (cs ! i)"
  by (simp add: list_all_length)

lemma true_range_flat:
  "list_all (is_flat p) cs \<Longrightarrow> 1 \<le> i \<Longrightarrow> i < length cs \<Longrightarrow> true_range_at cs i = Fin 0"
  using flat_nth [of p cs i] flat_nth [of p cs "i - 1"]
  by (simp add: true_range_at_def is_flat_def Math_max_def)

lemma change_flat:
  "list_all (is_flat p) cs \<Longrightarrow> 1 \<le> i \<Longrightarrow> i < length cs \<Longrightarrow> change_at cs i = Fin 0"
  using flat_nth [of p cs i] flat_nth [of p cs "i - 1"]
  by (simp add: change_at_def is_flat_def)

lemma true_ranges_flat:
  assumes "list_all (is_flat p) cs"
  shows "map (true_range_at cs) [Suc 0 ..< length cs] = replicate (length cs - 1) (Fin 0)"
proof -
  have "map (true_range_at cs) [Suc 0 ..< length cs] = map (\<lambda>_. Fin 0) [Suc 0 ..< length cs]"
    by (rule map_cong) (auto simp: true_range_flat [OF assms])
  then show ?thesis by (simp add: map_replicate_const)
qed

lemma calculateATR_flat:
  assumes "list_all (is_flat p) cs" and "0 < period"
  shows "calculateATR cs period = Fin 0"
proof (cases "length cs < period + 1")
  case True
  then show ?thesis by (simp add: calculateATR_def)
next
  case False
  then show ?thesis using assms(2)
    by (simp add: calculateATR_def Let_def true_ranges_flat [OF assms(1)]
          foldl_replicate_fixed atr_smooth_def)
qed

lemma rsi_accumulate_flat:
  assumes "list_all (is_flat p) cs" and "period < length cs"
  shows "foldl (rsi_accumulate cs) (Fin 0, Fin 0) [1 ..< period + 1] = (Fin 0, Fin 0)"
  using assms(2)
  by (intro foldl_invariant [where P = "\<lambda>s. s = (Fin 0, Fin 0)"])
     (auto simp: change_flat [OF assms(1)] rsi_accumulate_def Let_def)

lemma rsi_smooth_flat:
  assumes "list_all (is_flat p) cs" and "0 < period"
  shows "foldl (rsi_smooth cs period) (Fin 0, Fin 0) [Suc period ..< length cs] = (Fin 0, Fin 0)"
  using assms(2)
  by (intro foldl_invariant [where P = "\<lambda>s. s = (Fin 0, Fin 0)"])
     (auto simp: change_flat [OF assms(1)] rsi_smooth_def Let_def)

lemma calculateRSI_flat:
  assumes "list_all (is_flat p) cs" and "0 < period"
  shows "calculateRSI cs period = (if length cs < period + 1 then Fin 50 else Fin 100)"
proof (cases "length cs < period + 1")
  case True
  then show ?thesis by (simp add: calculateRSI_def)
next
  case False
  then have "period < length cs" by simp
  show ?thesis
    unfolding calculateRSI_def rsi_accumulate_flat [OF assms(1) \<open>period < length cs\<close>]
    using False assms(2) by (simp add: rsi_smooth_flat [OF assms] strict_eq_def)
qed

text \<open>On flat bars the volatility is \<open>0\<close> and the strategy waits.\<close>

lemma analyze_flat:
  assumes "list_all (is_flat p) cs" and "\<not> balance account < Fin 0"
  shows "\<exists>reason. analyze cs None account config = Some (Wait reason)"
proof (cases "length cs < 15")
  case True
  then show ?thesis using assms(2)
    by (cases "balance account") (auto simp: analyze_def truthy_def)
next
  case False
  have nb: "\<not> (if truthy (balance account) then balance account else Fin 1000) \<le> Fin 0"
    using assms(2) by (cases "balance account") (auto simp: truthy_def)
  have "is_flat p (cs ! (length cs - 1))" using False by (intro flat_nth [OF assms(1)]) simp
  then have last: "close (cs ! (length cs - 1)) = Fin p" by (simp add: is_flat_def)
  have "calculateATR cs 14 = Fin 0" by (simp add: calculateATR_flat [OF assms(1)])
  then have vol: "(if Fin 0 < close (cs ! (length cs - 1))
              then calculateATR cs 14 / close (cs ! (length cs - 1)) * Fin 100
              else Fin 0) = Fin 0"
    using last by simp
  have "15 \<le> length cs" using False by simp
  from analyze_no_position [OF this nb, of config]
  obtain hist stoch up down where
    "analyze cs None account config =
      Some (seek_entry (cs ! (length cs - 1)) (cs ! (length cs - 2))
             (if truthy (balance account) then balance account else Fin 1000)
             (if Fin 0 < close (cs ! (length cs - 1))
              then calculateATR cs 14 / close (cs ! (length cs - 1)) * Fin 100
              else Fin 0)
             (calculateADX cs 14) (calculateRSI cs 14)
             (calculateRSI (butlast cs) 14) hist stoch up down)"
    by blast
  then show ?thesis
    unfolding vol by (simp add: seek_entry_def Let_def)
qed

text \<open>A moving average of bars that all close at \<open>v\<close> is \<open>v\<close>.\<close>

lemma sum_closes_const:
  "\<forall>c\<in>set cs. close c = Fin v \<Longrightarrow>
   foldl (\<lambda>s c. s + close c) (Fin a) cs = Fin (a + real (length cs) * v)"
  by (induction cs arbitrary: a) (auto simp: algebra_simps)

lemma ema_fold_const:
  "\<forall>c\<in>set cs. close c = Fin v \<Longrightarrow>
   foldl (\<lambda>ema c. (close c - ema) * Fin m + ema) (Fin v) cs = Fin v"
  by (induction cs) auto

lemma calculateEMA_const:
  assumes "cs \<noteq> []" and "\<forall>c\<in>set cs. close c = Fin v" and "0 < period"
  shows "calculateEMA cs period = Some (Fin v)"
proof (cases "length cs < period")
  case True
  then show ?thesis using assms by (simp add: calculateEMA_def last_close_def)
next
  case False
  have tail: "\<forall>c\<in>set (drop k cs). close c = Fin v" for k
    using assms(2) by (auto dest: in_set_dropD)
  have "sum_closes cs period = Fin (real period * v)"
    using False by (simp add: sum_closes_def sum_closes_const [OF tail])
  then have sma: "sum_closes cs period / Fin (real period) = Fin v"
    using assms(3) by simp
  have mult: "Fin 2 / Fin (real period + 1) = Fin (2 / (real period + 1))"
    by simp
  show ?thesis
    using False
    by (simp only: calculateEMA_def Let_def sma mult ema_fold_const [OF tail] if_False)
qed

lemma calculateSMA_const:
  assumes "cs \<noteq> []" and "\<forall>c\<in>set cs. close c = Fin v" and "0 < period"
  shows "calculateSMA cs period = Some (Fin v)"
proof (cases "length cs < period")
  case True
  then show ?thesis using assms by (simp add: calculateSMA_def last_close_def)
next
  case False
  have tail: "\<forall>c\<in>set (drop k cs). close c = Fin v" for k
    using assms(2) by (auto dest: in_set_dropD)
  have "sum_closes cs period = Fin (real period * v)"
    using False by (simp add: sum_closes_def sum_closes_const [OF tail])
  then show ?thesis using False assms(3) by (simp add: calculateSMA_def)
qed

text \<open>
  Claim C5, as stated, fails: on twenty flat bars every change is \<open>0\<close>, a change of \<open>0\<close>
  counts as a gain, the average loss is \<open>0\<close> and \<open>calculateRSI\<close> returns \<open>100\<close>, not
  a value near \<open>50\<close>.
\<close>

theorem flat_rsi_is_100:
  "calculateRSI (flat_bars 20 100) 14 = Fin 100
   \<and> \<not> (Fin 49 < calculateRSI (flat_bars 20 100) 14
        \<and> calculateRSI (flat_bars 20 100) 14 < Fin 51)"
  by (simp add: calculateRSI_flat [OF flat_bars_flat] length_flat_bars)

text \<open>
  Claim C5, amended.  On any number \<open>n\<close> of flat bars at \<open>100\<close> (the twenty bars and each
  of their prefixes are \<open>n \<le> 20\<close>): RSI with period 14 is \<open>50\<close> while there are fewer
  than 15 bars and \<open>100\<close> from then on, ATR is \<open>0\<close>, the simple and the exponential
  moving averages are \<open>100\<close>, and \<open>analyze\<close> without a position and with a balance
  that is not negative returns a \<open>wait\<close> signal.
\<close>

theorem flat_market:
  assumes "\<not> balance account < Fin 0"
  shows "calculateRSI (flat_bars n 100) 14 = (if n < 15 then Fin 50 else Fin 100)
    \<and> calculateATR (flat_bars n 100) 14 = Fin 0
    \<and> (0 < n \<and> 0 < period \<longrightarrow>
          calculateSMA (flat_bars n 100) period = Some (Fin 100)
          \<and> calculateEMA (flat_bars n 100) period = Some (Fin 100))
    \<and> (\<exists>reason. analyze (flat_bars n 100) None account config = Some (Wait reason))"
proof -
  have closes: "\<forall>c\<in>set (flat_bars n 100). close c = Fin 100"
    by (simp add: flat_bars_def bar_def)
  have "calculateSMA (flat_bars n 100) period = Some (Fin 100)
        \<and> calculateEMA (flat_bars n 100) period = Some (Fin 100)"
    if "0 < n" "0 < period"
  proof -
    have "flat_bars n 100 \<noteq> []" using that(1) by (simp add: flat_bars_def)
    then show ?thesis
      using that(2) closes by (simp add: calculateSMA_const calculateEMA_const)
  qed
  then show ?thesis
    using analyze_flat [OF flat_bars_flat assms]
    by (simp add: calculateRSI_flat [OF flat_bars_flat] calculateATR_flat [OF flat_bars_flat]
          length_flat_bars)
qed

theorem flat_market_witness:
  "\<not> balance (createAccount (Fin 10000)) < Fin 0
   \<and> calculateRSI (flat_bars 20 100) 14 = Fin 100
   \<and> calculateATR (flat_bars 20 100) 14 = Fin 0
   \<and> calculateSMA (flat_bars 20 100) 5 = Some (Fin 100)
   \<and> calculateEMA (flat_bars 20 100) 5 = Some (Fin 100)
   \<and> (\<exists>reason. analyze (flat_bars 20 100) None (createAccount (Fin 10000)) default_config
                = Some (Wait reason))"
  using flat_market [of "createAccount (Fin 10000)" 20 5 default_config]
  by (simp add: createAccount_def)

section \<open>The loop of the simulator\<close>

lemma sim_loop_Nil [simp]: "sim_loop config priceData [] st = Some st"
  by (simp add: sim_loop_def)

lemma sim_loop_Cons [simp]:
  "sim_loop config priceData (i # is) st =
     (case sim_step config priceData i st of
        None \<Rightarrow> None
      | Some (Break st') \<Rightarrow> Some st'
      | Some (Proceed st') \<Rightarrow> sim_loop config priceData is st')"
  unfolding sim_loop_def sim_step_def by simp

lemma sim_step_unfold:
  "sim_step config priceData i st =
     (if \<not> (balance (tradingAccount st) < Fin 2 \<and> currentPosition st = None)
            \<and> balance (tradingAccount st) < Fin (1 / 2)
      then Some (Break st)
      else do {
        signal \<leftarrow> analyze (take (i + 1) priceData) (currentPosition st) (tradingAccount st) config;
        Some (apply_signal config (take (i + 1) priceData ! i) signal st)
      })"
  by (simp add: sim_step_def sim_step_with_def Let_def)

lemma below_half_below_two: "b < Fin (1 / 2) \<Longrightarrow> b < Fin 2"
  by (cases b) auto

lemma position_size_1000:
  assumes "0 < c"
  shows "position_size (Fin 1000) (Fin c) = Fin (200 / c)"
  using assms by (simp add: position_size_def Let_def)

lemma zero_balance_step:
  assumes bal: "balance (tradingAccount st) = Fin 0" and pos: "currentPosition st = None"
    and i: "14 \<le> i" "i < length priceData"
    and fin: "is_finite (close (priceData ! i))"
    and fee: "feePercentage config = Fin phi" "- 100 < phi"
  shows "sim_step config priceData i st = Some (Proceed st)"
proof -
  define cs where "cs = take (i + 1) priceData"
  have len: "length cs = i + 1" using i by (simp add: cs_def)
  have cc: "cs ! (length cs - 1) = priceData ! i" "cs ! i = priceData ! i"
    using i by (simp_all add: cs_def)
  obtain c where c: "close (priceData ! i) = Fin c"
    using fin by (auto simp: is_finite_def split: jsnum.splits)
  have nb: "\<not> (if truthy (balance (tradingAccount st)) then balance (tradingAccount st) else Fin 1000) \<le> Fin 0"
    by (simp add: bal truthy_def)
  have acc: "(if truthy (balance (tradingAccount st)) then balance (tradingAccount st) else Fin 1000) = Fin 1000"
    by (simp add: bal truthy_def)
  have "15 \<le> length cs" using i len by simp
  from analyze_no_position_cases [OF this nb, of config, unfolded cc acc]
  consider r where "analyze cs None (tradingAccount st) config = Some (Wait r)"
    | e where "Fin 0 < close (priceData ! i)"
        "analyze cs None (tradingAccount st) config = Some (Buy e)
         \<or> analyze cs None (tradingAccount st) config = Some (Sell e)"
        "positionSize e = position_size (Fin 1000) (close (priceData ! i))"
        "sig_leverage e = Fin 3"
    by blast
  then have "\<exists>sig. analyze cs None (tradingAccount st) config = Some sig
     \<and> apply_signal config (priceData ! i) sig st = Proceed st"
  proof cases
    case 1
    then show ?thesis using pos by (simp add: monitor_price_def)
  next
    case 2
    have "0 < c" using 2(1) by (simp add: c)
    then have "entry_margin e (close (priceData ! i)) = Fin 200"
      using 2(3,4) by (simp add: entry_margin_def leveraged_size_def c position_size_1000)
    then have "balance (tradingAccount st)
         < entry_margin e (close (priceData ! i))
           + fee_of config (entry_margin e (close (priceData ! i)))"
      using fee by (simp add: bal fee_of_def)
    then have "apply_signal config (priceData ! i) (Buy e) st = Proceed st"
      "apply_signal config (priceData ! i) (Sell e) st = Proceed st"
      using pos by (auto simp: enter_position_def Let_def)
    then show ?thesis using 2(2) by auto
  qed
  then show ?thesis
    using pos bal cc(2)
    by (auto simp: sim_step_unfold cs_def simp del: take_Suc_conv_app_nth)
qed

lemma zero_balance_loop:
  assumes "balance (tradingAccount st) = Fin 0" and "currentPosition st = None"
    and "\<forall>i\<in>set indices. 14 \<le> i \<and> i < length priceData \<and> is_finite (close (priceData ! i))"
    and "feePercentage config = Fin phi" and "- 100 < phi"
  shows "sim_loop config priceData indices st = Some st"
  using assms(3)
proof (induction indices)
  case Nil
  then show ?case by simp
next
  case (Cons i rest)
  then have "sim_step config priceData i st = Some (Proceed st)"
    using zero_balance_step [OF assms(1,2) _ _ _ assms(4,5), of i priceData] by simp
  then show ?case using Cons by simp
qed

section \<open>A run that loses the whole balance\<close>

text \<open>A flat prefix.\<close>

lemma flat_prefix_nth:
  "list_all (is_flat p) fs \<Longrightarrow> i < length fs \<Longrightarrow> is_flat p ((fs @ rest) ! i)"
  by (simp add: nth_append flat_nth)

lemma true_range_prefix:
  "list_all (is_flat p) fs \<Longrightarrow> 1 \<le> i \<Longrightarrow> i < length fs \<Longrightarrow> true_range_at (fs @ rest) i = Fin 0"
  using flat_prefix_nth [of p fs i rest] flat_prefix_nth [of p fs "i - 1" rest]
  by (simp add: true_range_at_def is_flat_def Math_max_def)

lemma plus_dm_prefix:
  "list_all (is_flat p) fs \<Longrightarrow> 1 \<le> i \<Longrightarrow> i < length fs \<Longrightarrow> plus_dm_at (fs @ rest) i = Fin 0"
  using flat_prefix_nth [of p fs i rest] flat_prefix_nth [of p fs "i - 1" rest]
  by (simp add: plus_dm_at_def is_flat_def)

lemma minus_dm_prefix:
  "list_all (is_flat p) fs \<Longrightarrow> 1 \<le> i \<Longrightarrow> i < length fs \<Longrightarrow> minus_dm_at (fs @ rest) i = Fin 0"
  using flat_prefix_nth [of p fs i rest] flat_prefix_nth [of p fs "i - 1" rest]
  by (simp add: minus_dm_at_def is_flat_def)

lemma change_prefix:
  "list_all (is_flat p) fs \<Longrightarrow> 1 \<le> i \<Longrightarrow> i < length fs \<Longrightarrow> change_at (fs @ rest) i = Fin 0"
  using flat_prefix_nth [of p fs i rest] flat_prefix_nth [of p fs "i - 1" rest]
  by (simp add: change_at_def is_flat_def)

lemma map_zero_prefix:
  assumes "\<And>i. 1 \<le> i \<Longrightarrow> i < k \<Longrightarrow> f i = Fin 0" and "1 \<le> k" and "k \<le> n"
  shows "map f [1 ..< n] = replicate (k - 1) (Fin 0) @ map f [k ..< n]"
proof -
  have "[1 ..< n] = [1 ..< k] @ [k ..< n]"
    using assms(2,3) by (metis le_Suc_ex upt_add_eq_append)
  moreover have "map f [1 ..< k] = map (\<lambda>_. Fin 0) [1 ..< k]"
    by (rule map_cong) (auto simp: assms(1))
  ultimately show ?thesis by (simp add: map_replicate_const)
qed

lemma scenario_take_51: "take 51 scenario_bars = flat_bars 51 6100"
  by (simp add: scenario_bars_def length_flat_bars)

lemma scenario_take_52: "take 52 scenario_bars = bars52"
  by (simp add: scenario_bars_def length_flat_bars bars52_def)

lemma bars52_nth:
  "length bars52 = 52"
  "bars52 ! 51 = bar 51 6100 6100 6000 6000"
  "bars52 ! 50 = bar 50 6100 6100 6100 6100"
  by (simp_all add: bars52_def length_flat_bars nth_append) (simp add: flat_bars_def)

lemma bars52_true_ranges:
  "map (true_range_at bars52) [1 ..< 52] = replicate 50 (Fin 0) @ [Fin 100]"
proof -
  have "map (true_range_at bars52) [1 ..< 52]
        = replicate (51 - 1) (Fin 0) @ map (true_range_at bars52) [51 ..< 52]"
    by (rule map_zero_prefix)
       (simp_all add: bars52_def true_range_prefix [OF flat_bars_flat] length_flat_bars)
  moreover have "true_range_at bars52 51 = Fin 100"
    by (simp add: true_range_at_def bars52_nth bar_def Math_max_def)
  ultimately show ?thesis by (simp add: upt_rec)
qed

lemma bars52_atr: "calculateATR bars52 14 = Fin (50 / 7)"
  unfolding calculateATR_def bars52_nth bars52_true_ranges
  by (simp add: foldl_replicate_fixed atr_smooth_def)


lemma bars52_plus_dm:
  "map (plus_dm_at bars52) [1 ..< 52] = replicate 50 (Fin 0) @ [Fin 0]"
proof -
  have "map (plus_dm_at bars52) [1 ..< 52]
        = replicate (51 - 1) (Fin 0) @ map (plus_dm_at bars52) [51 ..< 52]"
    by (rule map_zero_prefix)
       (simp_all add: bars52_def plus_dm_prefix [OF flat_bars_flat] length_flat_bars)
  moreover have "plus_dm_at bars52 51 = Fin 0"
    by (simp add: plus_dm_at_def bars52_nth bar_def)
  ultimately show ?thesis by (simp add: upt_rec)
qed

lemma bars52_minus_dm:
  "map (minus_dm_at bars52) [1 ..< 52] = replicate 50 (Fin 0) @ [Fin 100]"
proof -
  have "map (minus_dm_at bars52) [1 ..< 52]
        = replicate (51 - 1) (Fin 0) @ map (minus_dm_at bars52) [51 ..< 52]"
    by (rule map_zero_prefix)
       (simp_all add: bars52_def minus_dm_prefix [OF flat_bars_flat] length_flat_bars)
  moreover have "minus_dm_at bars52 51 = Fin 100"
    by (simp add: minus_dm_at_def bars52_nth bar_def)
  ultimately show ?thesis by (simp add: upt_rec)
qed

lemma bars52_adx: "calculateADX bars52 14 = Num (Fin 100)"
proof -
  have z: "zip (replicate 50 (Fin 0) @ [Fin 100])
               (zip (replicate 50 (Fin 0) @ [Fin 0]) (replicate 50 (Fin 0) @ [Fin 100]))
           = replicate 50 (Fin 0, Fin 0, Fin 0) @ [(Fin 100, Fin 0, Fin 100)]"
    by (simp add: zip_replicate)
  have fixed: "adx_smooth 14 (Fin 0, Fin 0, Fin 0, NaN) (Fin 0, Fin 0, Fin 0) = (Fin 0, Fin 0, Fin 0, NaN)"
    by (simp add: adx_smooth_def dx_of_def Let_def)
  have last: "adx_smooth 14 (Fin 0, Fin 0, Fin 0, NaN) (Fin 100, Fin 0, Fin 100)
              = (Fin 100, Fin 0, Fin 100, Fin 100)"
    by (simp add: adx_smooth_def dx_of_def Let_def)
  show ?thesis
    unfolding calculateADX_def bars52_nth bars52_true_ranges bars52_plus_dm bars52_minus_dm z
    by (simp add: foldl_replicate_fixed dx_of_def fixed last toFixed2_def Let_def)
qed

lemma bars52_rsi: "calculateRSI bars52 14 = Fin 0"
proof -
  have flat: "\<And>i. 1 \<le> i \<Longrightarrow> i < 51 \<Longrightarrow> change_at bars52 i = Fin 0"
    by (simp add: bars52_def change_prefix [OF flat_bars_flat] length_flat_bars)
  have one: "foldl (rsi_accumulate bars52) (Fin 0, Fin 0) [1 ..< 14 + 1] = (Fin 0, Fin 0)"
    by (intro foldl_invariant [where P = "\<lambda>s. s = (Fin 0, Fin 0)"])
       (auto simp: flat rsi_accumulate_def Let_def)
  have two: "foldl (rsi_smooth bars52 14) (Fin 0, Fin 0) [15 ..< 51] = (Fin 0, Fin 0)"
    by (intro foldl_invariant [where P = "\<lambda>s. s = (Fin 0, Fin 0)"])
       (auto simp: flat rsi_smooth_def Let_def)
  have split: "[14 + 1 ..< 52] = [15 ..< 51] @ [51]"
    by (simp add: upt_rec [of 51])
  have last: "change_at bars52 51 = Fin (- 100)"
    by (simp add: change_at_def bars52_nth bar_def)
  have "foldl (rsi_smooth bars52 14) (Fin 0, Fin 0) ([15 ..< 51] @ [51]) = (Fin 0, Fin (50 / 7))"
    unfolding foldl_append two by (simp add: rsi_smooth_def last)
  then show ?thesis
    unfolding calculateRSI_def bars52_nth one split
    by (simp add: strict_eq_def)
qed

lemma bars52_ema:
  "calculateEMA bars52 5 = Some (Fin (491080 / 81))"
  "calculateEMA (butlast bars52) 5 = Some (Fin 6100)"
proof -
  have "[0 ..< 51] = [0 ..< 47] @ [47, 48, 49, 50]" by code_simp
  then have d: "flat_bars 51 6100 = flat_bars 47 6100 @ [bar 47 6100 6100 6100 6100,
      bar 48 6100 6100 6100 6100, bar 49 6100 6100 6100 6100, bar 50 6100 6100 6100 6100]"
    by (simp add: flat_bars_def)
  show "calculateEMA bars52 5 = Some (Fin (491080 / 81))"
    unfolding bars52_def d
    by (simp add: calculateEMA_def sum_closes_def length_flat_bars bar_def)
  have "butlast bars52 = flat_bars 51 6100" by (simp add: bars52_def)
  moreover have "\<forall>c\<in>set (flat_bars 51 6100). close c = Fin 6100"
    by (simp add: flat_bars_def bar_def)
  moreover have "flat_bars 51 6100 \<noteq> []" by (simp add: flat_bars_def)
  ultimately show "calculateEMA (butlast bars52) 5 = Some (Fin 6100)"
    by (simp add: calculateEMA_const)
qed


text \<open>The signal at the bar that falls, for any balance that the strategy takes as positive.\<close>

lemma bars52_analyze:
  assumes "(if truthy (balance account) then balance account else Fin 1000) = Fin b" and "0 < b"
  shows "analyze bars52 None account config =
   Some (Sell \<lparr>sig_reason = ''Strong downtrend detected'', sig_direction = Short,
       sig_price = Fin 6000, positionSize = Fin (b / 30000),
       sig_leverage = Fin 3, sig_stopLoss = Fin 6009,
       sig_takeProfit = Fin 5994, sig_volatilityPercent = Fin (3 / 25),
       sig_adx = Num (Fin 100)\<rparr>)"
proof -
  have nb: "\<not> (if truthy (balance account) then balance account else Fin 1000) \<le> Fin 0"
    using assms by simp
  have "15 \<le> length bars52" by (simp add: bars52_nth)
  from analyze_no_position_ema [OF this nb, of config]
  obtain ema5 prevEma5 hist stoch where
    "calculateEMA bars52 5 = Some ema5"
    "calculateEMA (butlast bars52) 5 = Some prevEma5"
    and eq: "analyze bars52 None account config =
      Some (seek_entry (bars52 ! (length bars52 - 1)) (bars52 ! (length bars52 - 2))
             (if truthy (balance account) then balance account else Fin 1000)
             (if Fin 0 < close (bars52 ! (length bars52 - 1))
              then calculateATR bars52 14 / close (bars52 ! (length bars52 - 1)) * Fin 100
              else Fin 0)
             (calculateADX bars52 14) (calculateRSI bars52 14)
             (calculateRSI (butlast bars52) 14) hist stoch
             (prevEma5 < ema5) (ema5 < prevEma5))"
    by blast
  then have ema: "ema5 = Fin (491080 / 81)" "prevEma5 = Fin 6100"
    by (simp_all add: bars52_ema)
  have idx: "length bars52 - 1 = 51" "length bars52 - 2 = 50"
    by (simp_all add: bars52_nth)
  have pos_size: "position_size (Fin b) (Fin 6000) = Fin (b / 30000)"
    using assms(2) by (simp add: position_size_def Let_def)
  have tf: "toFixed2 (Fin (5 / 42)) = Fin (3 / 25)"
    by (simp add: toFixed2_def)
  have prev: "calculateRSI (butlast bars52) 14 = Fin 100"
    by (simp add: bars52_def calculateRSI_flat [OF flat_bars_flat] length_flat_bars)
  show ?thesis
    unfolding eq idx bars52_atr bars52_adx bars52_rsi ema assms(1) prev
    by (simp add: seek_entry_def Let_def bars52_nth bar_def pos_size tf)
qed

lemma scenario_take_53: "take 53 scenario_bars = bars53"
  by (simp add: scenario_bars_def length_flat_bars bars53_def bars52_def)

lemma bars53_nth:
  "length bars53 = 53"
  "bars53 ! 52 = bar 52 6000 15997 6000 15997"
  by (simp_all add: bars53_def bars52_nth nth_append)

lemma scenario_length: "length scenario_bars = 55"
  by (simp add: scenario_bars_def length_flat_bars)

text \<open>Bar 50: the history is flat and the strategy waits.\<close>

lemma scenario_step_50:
  assumes "take 51 priceData = flat_bars 51 6100"
  shows "sim_step default_config priceData 50 (initial_state default_config)
         = Some (Proceed (initial_state default_config))"
proof -
  have "\<not> balance (tradingAccount (initial_state default_config)) < Fin 0"
    by (simp add: initial_state_def default_config_def createAccount_def)
  from analyze_flat [OF flat_bars_flat this, of 51 6100 default_config]
  obtain reason where
    "analyze (flat_bars 51 6100) None (tradingAccount (initial_state default_config)) default_config
     = Some (Wait reason)"
    by blast
  then show ?thesis
    using assms
    by (simp add: sim_step_unfold Let_def initial_state_def monitor_price_def default_config_def
          createAccount_def del: take_Suc_conv_app_nth)
qed

text \<open>Bar 51: the strategy sells and the simulator opens the short position.\<close>

lemma scenario_step_51:
  assumes "take 52 priceData = bars52"
  shows "sim_step default_config priceData 51 (initial_state default_config)
         = Some (Proceed scenario_open)"
proof -
  have "analyze bars52 None (tradingAccount (initial_state default_config)) default_config =
   Some (Sell \<lparr>sig_reason = ''Strong downtrend detected'', sig_direction = Short,
       sig_price = Fin 6000, positionSize = Fin (10000 / 30000),
       sig_leverage = Fin 3, sig_stopLoss = Fin 6009,
       sig_takeProfit = Fin 5994, sig_volatilityPercent = Fin (3 / 25),
       sig_adx = Num (Fin 100)\<rparr>)"
    by (rule bars52_analyze)
       (simp_all add: initial_state_def default_config_def createAccount_def truthy_def)
  then show ?thesis
    using assms
    by (simp add: sim_step_unfold Let_def initial_state_def default_config_def createAccount_def
          enter_position_def entry_margin_def leveraged_size_def fee_of_def bars52_nth bar_def
          scenario_open_def scenario_position_def del: take_Suc_conv_app_nth)
qed

text \<open>Bar 52: the price is far above the entry and the strategy exits at a loss.\<close>

lemma bars53_analyze:
  "analyze bars53 (Some scenario_position) (tradingAccount scenario_open) default_config
      = Some (Exit ''Stop loss hit'' (Fin 15997))"
proof -
  have nb: "\<not> (if truthy (balance (tradingAccount scenario_open))
               then balance (tradingAccount scenario_open) else Fin 1000) \<le> Fin 0"
    by (simp add: scenario_open_def truthy_def)
  have "15 \<le> length bars53" by (simp add: bars53_nth)
  from analyze_in_position [OF this nb, of scenario_position default_config]
  obtain hist up down where
    "analyze bars53 (Some scenario_position) (tradingAccount scenario_open) default_config =
      Some (manage_position (bars53 ! (length bars53 - 1)) scenario_position
             (opn (bars53 ! (length bars53 - 1)) < close (bars53 ! (length bars53 - 1)))
             (close (bars53 ! (length bars53 - 1)) < opn (bars53 ! (length bars53 - 1)))
             up down hist)"
    by blast
  moreover have "length bars53 - 1 = 52" by (simp add: bars53_nth)
  ultimately show ?thesis
    by (simp add: bars53_nth manage_position_def Let_def bar_def scenario_position_def)
qed

lemma scenario_step_52:
  assumes "take 53 priceData = bars53"
  shows "sim_step default_config priceData 52 scenario_open = Some (Proceed scenario_closed)"
  using assms bars53_analyze
  by (simp add: sim_step_unfold Let_def scenario_open_def bars53_nth bar_def
        close_position_def position_pnl_def fee_of_def default_config_def
        scenario_closed_def scenario_trade_def scenario_position_def
        position.defs trade.defs del: take_Suc_conv_app_nth)

lemma scenario_run_52:
  "sim_loop default_config (take 52 scenario_bars) [50 ..< 52] (initial_state default_config)
   = Some scenario_open"
proof -
  have idx: "[50 ..< 52] = [50, 51 :: nat]" by code_simp
  have a: "take 51 (take 52 scenario_bars) = flat_bars 51 6100"
    by (simp add: scenario_take_51)
  have b: "take 52 (take 52 scenario_bars) = bars52"
    by (simp add: scenario_take_52 bars52_nth)
  show ?thesis
    unfolding idx by (simp add: scenario_step_50 [OF a] scenario_step_51 [OF b])
qed

lemma scenario_run_55:
  "sim_loop default_config scenario_bars [50 ..< 55] (initial_state default_config)
   = Some scenario_closed"
proof -
  have idx: "[50 ..< 55] = [50, 51, 52] @ [53, 54 :: nat]" by code_simp
  have rest: "sim_loop default_config scenario_bars [53, 54] scenario_closed = Some scenario_closed"
    by (rule zero_balance_loop [where phi = "75 / 1000"])
       (simp_all add: scenario_closed_def default_config_def scenario_length
          scenario_bars_def nth_append length_flat_bars bar_def is_finite_def)
  have first: "sim_loop default_config scenario_bars ([50, 51, 52] @ is) (initial_state default_config)
        = sim_loop default_config scenario_bars is scenario_closed" for "is"
    by (simp add: scenario_step_50 [OF scenario_take_51] scenario_step_51 [OF scenario_take_52]
          scenario_step_52 [OF scenario_take_53])
  show ?thesis unfolding idx first rest ..
qed

section \<open>An entry that the balance does not cover\<close>

text \<open>
  Claim C8.  When \<open>analyze\<close> returns \<open>buy\<close> or \<open>sell\<close> (which it does only without an
  open position) and margin plus entry fee exceed the balance, the loop body leaves the
  state as it is (balance, position and ledger) and the loop goes on with the next bar.
\<close>

theorem insufficient_funds_skip:
  assumes "analyze (take (i + 1) priceData) (currentPosition st) (tradingAccount st) config = Some sig"
    and "sig = Buy e \<or> sig = Sell e"
    and "balance (tradingAccount st)
           < entry_margin e (close (priceData ! i))
             + fee_of config (entry_margin e (close (priceData ! i)))"
    and "i < length priceData"
  shows "sim_step config priceData i st = Some (Proceed st)
    \<and> sim_loop config priceData (i # rest) st = sim_loop config priceData rest st"
proof -
  have none: "currentPosition st = None"
    using analyze_entry_no_position [OF assms(1,2)] .
  have pre: "\<not> (\<not> (balance (tradingAccount st) < Fin 2 \<and> currentPosition st = None)
            \<and> balance (tradingAccount st) < Fin (1 / 2))"
    using none below_half_below_two by auto
  have cc: "take (i + 1) priceData ! i = priceData ! i" using assms(4) by simp
  have "apply_signal config (priceData ! i) sig st = Proceed st"
    using assms(2,3) none by (auto simp: enter_position_def Let_def)
  then have "sim_step config priceData i st = Some (Proceed st)"
    using pre assms(1) cc by (simp add: sim_step_unfold del: take_Suc_conv_app_nth)
  then show ?thesis by simp
qed


theorem insufficient_funds_skip_witness:
  "analyze (take (51 + 1) bars52) (currentPosition broke) (tradingAccount broke) default_config
     = Some (Sell skipped_entry)
   \<and> balance (tradingAccount broke)
       < entry_margin skipped_entry (close (bars52 ! 51))
         + fee_of default_config (entry_margin skipped_entry (close (bars52 ! 51)))
   \<and> 51 < length bars52
   \<and> sim_step default_config bars52 51 broke = Some (Proceed broke)
   \<and> sim_loop default_config bars52 [51, 52] broke = sim_loop default_config bars52 [52] broke"
proof -
  have a: "analyze (take (51 + 1) bars52) (currentPosition broke) (tradingAccount broke)
             default_config = Some (Sell skipped_entry)"
    using bars52_analyze [of "tradingAccount broke" 1000 default_config]
    by (simp add: broke_def truthy_def skipped_entry_def bars52_nth)
  have b: "balance (tradingAccount broke)
       < entry_margin skipped_entry (close (bars52 ! 51))
         + fee_of default_config (entry_margin skipped_entry (close (bars52 ! 51)))"
    by (simp add: broke_def entry_margin_def leveraged_size_def skipped_entry_def bars52_nth
          bar_def fee_of_def default_config_def)
  have c: "51 < length bars52" by (simp add: bars52_nth)
  show ?thesis
    using insufficient_funds_skip [OF a _ b c, where rest = "[52]"] a b c by simp
qed

section \<open>A balance of exactly zero\<close>

text \<open>With a negative balance and no position the loop halts and records the halt.\<close>

lemma negative_balance_halts:
  assumes "balance (tradingAccount st) < Fin 0" and "currentPosition st = None"
  shows "sim_step config priceData i st =
    Some (Break (st\<lparr>tradeHistory := tradeHistory st @
       [StopEntry (time (take (i + 1) priceData ! i))
          ''Account bankrupt - balance is zero or negative'' (balance (tradingAccount st))]\<rparr>))"
proof -
  have "truthy (balance (tradingAccount st))" "balance (tradingAccount st) \<le> Fin 0"
    "balance (tradingAccount st) < Fin 2"
    using assms(1) by (cases "balance (tradingAccount st)"; simp add: truthy_def)+
  then show ?thesis
    using assms(2) by (simp add: sim_step_unfold analyze_def del: take_Suc_conv_app_nth)
qed

text \<open>
  Claim C1 at a balance of exactly \<open>0\<close>.  The run on \<open>scenario_bars\<close> with the default
  configuration opens a short position at bar 51 and closes it at bar 52 with a loss that
  leaves the balance at exactly \<open>0\<close>.  At the next bar \<open>analyze\<close> does not return
  \<open>stop\<close>: \<open>account.balance || 1000\<close> is \<open>1000\<close>.  The loop processes bars 53 and
  54, and the ledger of the run holds the trade and no halt entry.
\<close>

theorem zero_balance_no_halt:
  "sim_loop default_config scenario_bars [50 ..< 53] (initial_state default_config)
     = Some scenario_closed
   \<and> balance (tradingAccount scenario_closed) = Fin 0
   \<and> currentPosition scenario_closed = None
   \<and> (\<forall>reason. analyze (take 54 scenario_bars) None (tradingAccount scenario_closed)
                   default_config \<noteq> Some (Stop reason))
   \<and> sim_step default_config scenario_bars 53 scenario_closed = Some (Proceed scenario_closed)
   \<and> run default_config scenario_bars 0 []
       = Inr (calculate_stats default_config scenario_closed, [TradeEntry scenario_trade])
   \<and> finalBalance (calculate_stats default_config scenario_closed) = Fin 0"
proof -
  have idx: "[50 ..< 53] = [50, 51, 52 :: nat]" by code_simp
  have loop: "sim_loop default_config scenario_bars [50 ..< 53] (initial_state default_config)
     = Some scenario_closed"
    unfolding idx
    by (simp add: scenario_step_50 [OF scenario_take_51] scenario_step_51 [OF scenario_take_52]
          scenario_step_52 [OF scenario_take_53])
  have nb: "\<not> (if truthy (balance (tradingAccount scenario_closed))
               then balance (tradingAccount scenario_closed) else Fin 1000) \<le> Fin 0"
    by (simp add: scenario_closed_def truthy_def)
  have "15 \<le> length (take 54 scenario_bars)" by (simp add: scenario_length)
  from analyze_no_position_cases [OF this nb, of default_config]
  have no_stop: "analyze (take 54 scenario_bars) None (tradingAccount scenario_closed)
                   default_config \<noteq> Some (Stop reason)" for reason
    by auto
  have step: "sim_step default_config scenario_bars 53 scenario_closed
              = Some (Proceed scenario_closed)"
    by (rule zero_balance_step [where phi = "75 / 1000"])
       (simp_all add: scenario_closed_def default_config_def scenario_length
          scenario_bars_def nth_append length_flat_bars bar_def is_finite_def)
  have "run default_config scenario_bars 0 []
       = Inr (calculate_stats default_config scenario_closed, [TradeEntry scenario_trade])"
    using scenario_run_55
    by (simp add: run_def run_with_def load_price_data_def scenario_length sim_loop_def
          scenario_closed_def)
       (simp add: scenario_bars_def flat_bars_def)
  moreover have "finalBalance (calculate_stats default_config scenario_closed) = Fin 0"
    by (simp add: calculate_stats_def scenario_closed_def Let_def)
  ultimately show ?thesis
    using loop no_stop step by (simp add: scenario_closed_def)
qed

section \<open>Where the loop starts\<close>





section \<open>Which exit applies on a bar\<close>







end
